theory Spec2Isabelle
  imports Main
begin

section \<open>Data model\<close>

text \<open>
  JSON-like Python values: what \<open>response.json()\<close> returns, what a tool returns and what
  the model puts into the arguments of a function call.  A Python \<open>dict\<close> is an association
  list with distinct keys, read with \<open>map_of\<close>; numbers are opaque to the code under study
  and kept as integers.
\<close>

datatype json =
    JNull
  | JBool bool
  | JNum int
  | JStr string
  | JList "json list"
  | JObj "(string \<times> json) list"

type_synonym dict = "(string \<times> json) list"

fun is_object :: "json \<Rightarrow> bool" where
  "is_object (JObj kvs) = True"
| "is_object v = False"

text \<open>
  Python exceptions derived from \<open>Exception\<close> (the only ones \<open>except Exception\<close> catches).
  \<open>ValueError\<close> is raised by the executors, \<open>IndexError\<close> by \<open>response.candidates[0]\<close> on
  an empty candidate list; \<open>OtherException\<close> stands for any exception raised by a
  collaborator (the model client, httpx, FastMCP, a tool function).  Each carries the text
  that \<open>str(e)\<close> gives.
\<close>

datatype exn =
    ValueError string
  | IndexError string
  | OtherException string

fun str :: "exn \<Rightarrow> string" where
  "str (ValueError m) = m"
| "str (IndexError m) = m"
| "str (OtherException m) = m"

text \<open>
  A reply of the model, as far as the driver reads it: \<open>response.candidates\<close>, the
  \<open>content\<close> of a candidate, its \<open>parts\<close>, and of a part the fields \<open>function_call\<close>
  and \<open>text\<close>.  A field that is not set is falsy in Python: \<open>None\<close> for the function call,
  the empty string for the text.
\<close>

datatype function_call = FunctionCall (fc_name: string) (fc_args: dict)

datatype part = Part (part_function_call: "function_call option") (part_text: string)

datatype content = Content (parts: "part list")

datatype response = Response (candidates: "content list")

text \<open>
  What the driver passes to \<open>chat.send_message\<close>: the user's prompt with the tool
  declarations, or one part holding a \<open>FunctionResponse(name=..., response=...)\<close>.
\<close>

datatype message =
    UserPrompt string json
  | FunctionResponse string json

text \<open>The object httpx returns; the driver calls \<open>raise_for_status()\<close> and \<open>json()\<close> on it.\<close>

record http_response =
  raise_for_status :: "exn option"
  response_json :: "exn + json"

text \<open>
  The calls the driver makes to its collaborators, in order, each with what the call gave
  back (for \<open>get_tool\<close> only the exception, if any).  The trace is ghost state: the code
  does not read it.
\<close>

datatype event =
    SendMessage message "exn + response"
  | HttpGet string "dict option" "exn + http_response"
  | McpGetTool string "exn option"
  | McpCallFn string dict "exn + json"

record 'w state =
  world :: 'w
  trace :: "event list"

text \<open>
  The collaborators.  \<open>'w\<close> is the state of everything outside the driver (the chat
  session held by the model endpoint, the servers behind the HTTP client); each call may
  change it, and returns a value or raises.  \<open>refuse\<close> is the exception with which the
  protocol library turns down a response payload that is not an object.
\<close>

record 'w env =
  send_message :: "'w \<Rightarrow> message \<Rightarrow> 'w \<times> (exn + response)"
  client_get :: "'w \<Rightarrow> string \<Rightarrow> dict option \<Rightarrow> 'w \<times> (exn + http_response)"
  refuse :: "json \<Rightarrow> exn"

text \<open>
  A FastMCP instance: \<open>get_tool\<close> returns a tool or raises; the tool's \<open>fn\<close> is \<open>None\<close>
  when the tool has no callable \<open>fn\<close> attribute.
\<close>

datatype 'w tool = Tool (fn: "('w \<Rightarrow> dict \<Rightarrow> 'w \<times> (exn + json)) option")

datatype 'w mcp = Mcp (get_tool: "'w \<Rightarrow> string \<Rightarrow> 'w \<times> (exn + 'w tool)")

section \<open>Calls to the collaborators\<close>

definition chat_send_message ::
  "'w env \<Rightarrow> 'w state \<Rightarrow> message \<Rightarrow> 'w state \<times> (exn + response)" where
  "chat_send_message env st msg =
     (case send_message env (world st) msg of
        (w, r) \<Rightarrow> (\<lparr>world = w, trace = trace st @ [SendMessage msg r]\<rparr>, r))"

definition http_client_get ::
  "'w env \<Rightarrow> 'w state \<Rightarrow> string \<Rightarrow> dict option \<Rightarrow> 'w state \<times> (exn + http_response)" where
  "http_client_get env st url params =
     (case client_get env (world st) url params of
        (w, r) \<Rightarrow> (\<lparr>world = w, trace = trace st @ [HttpGet url params r]\<rparr>, r))"

definition mcp_get_tool ::
  "'w mcp \<Rightarrow> 'w state \<Rightarrow> string \<Rightarrow> 'w state \<times> (exn + 'w tool)" where
  "mcp_get_tool mcp_instance st tool_name =
     (case get_tool mcp_instance (world st) tool_name of
        (w, r) \<Rightarrow> (\<lparr>world = w, trace = trace st @
             [McpGetTool tool_name (case r of Inl e \<Rightarrow> Some e | Inr t \<Rightarrow> None)]\<rparr>, r))"

definition mcp_call_fn ::
  "('w \<Rightarrow> dict \<Rightarrow> 'w \<times> (exn + json)) \<Rightarrow> 'w state \<Rightarrow> string \<Rightarrow> dict \<Rightarrow>
   'w state \<times> (exn + json)" where
  "mcp_call_fn f st tool_name kwargs =
     (case f (world st) kwargs of
        (w, r) \<Rightarrow> (\<lparr>world = w, trace = trace st @ [McpCallFn tool_name kwargs r]\<rparr>, r))"

section \<open>Tool executors (chat_handler.py)\<close>

definition base_url :: string where
  "base_url = ''http://localhost:8001''"

text \<open>
  \<open>execute_local_tool\<close>: the branch on the tool name chooses the request, or raises
  \<open>ValueError\<close> before any request is made.
\<close>

definition local_request :: "string \<Rightarrow> dict \<Rightarrow> exn + (string \<times> dict option)" where
  "local_request tool_name tool_args =
     (if tool_name = ''get_categories_tool'' then Inr (base_url @ ''/categories'', None)
      else if tool_name = ''get_products_tool'' then Inr (base_url @ ''/products'', None)
      else if tool_name = ''search_products_tool'' then
        (let search_term = (case map_of tool_args ''searchTerm'' of
                              Some v \<Rightarrow> v | None \<Rightarrow> JStr '''')
         in Inr (base_url @ ''/products/search'', Some [(''searchTerm'', search_term)]))
      else if tool_name = ''search_hotels_tool'' then
        Inr (base_url @ ''/hotels/search'', Some tool_args)
      else Inl (ValueError (''Unknown tool: '' @ tool_name)))"

definition execute_local_tool ::
  "'w env \<Rightarrow> 'w state \<Rightarrow> string \<Rightarrow> dict \<Rightarrow> 'w state \<times> (exn + json)" where
  "execute_local_tool env st tool_name tool_args =
     (case local_request tool_name tool_args of
        Inl e \<Rightarrow> (st, Inl e)
      | Inr (url, params) \<Rightarrow>
          (case http_client_get env st url params of
             (st1, Inl e) \<Rightarrow> (st1, Inl e)
           | (st1, Inr response) \<Rightarrow>
               (case raise_for_status response of
                  Some e \<Rightarrow> (st1, Inl e)
                | None \<Rightarrow> (st1, response_json response))))"

text \<open>
  \<open>execute_mcp_tool\<close>: the body of its \<open>try\<close>, then the handler, which runs
  \<open>execute_local_tool\<close> on any exception.
\<close>

definition mcp_try ::
  "'w mcp \<Rightarrow> 'w state \<Rightarrow> string \<Rightarrow> dict \<Rightarrow> 'w state \<times> (exn + json)" where
  "mcp_try mcp_instance st tool_name tool_args =
     (case mcp_get_tool mcp_instance st tool_name of
        (st1, Inl e) \<Rightarrow> (st1, Inl e)
      | (st1, Inr tool) \<Rightarrow>
          (case fn tool of
             Some f \<Rightarrow>
               (if tool_args \<noteq> [] then mcp_call_fn f st1 tool_name tool_args
                else mcp_call_fn f st1 tool_name [])
           | None \<Rightarrow>
               (st1, Inl (ValueError (''Tool '' @ tool_name @ '' is not callable'')))))"

definition execute_mcp_tool ::
  "'w env \<Rightarrow> 'w mcp \<Rightarrow> 'w state \<Rightarrow> string \<Rightarrow> dict \<Rightarrow> 'w state \<times> (exn + json)" where
  "execute_mcp_tool env mcp_instance st tool_name tool_args =
     (case mcp_try mcp_instance st tool_name tool_args of
        (st1, Inr result) \<Rightarrow> (st1, Inr result)
      | (st1, Inl e) \<Rightarrow> execute_local_tool env st1 tool_name tool_args)"

section \<open>The driver: generate_response_with_gemini\<close>

text \<open>The choice of executor at the head of the inner \<open>try\<close>.\<close>

definition execute_tool ::
  "'w env \<Rightarrow> 'w mcp option \<Rightarrow> 'w state \<Rightarrow> string \<Rightarrow> dict \<Rightarrow> 'w state \<times> (exn + json)" where
  "execute_tool env mcp_instance st tool_name tool_args =
     (case mcp_instance of
        Some m \<Rightarrow> execute_mcp_tool env m st tool_name tool_args
      | None \<Rightarrow> execute_local_tool env st tool_name tool_args)"

text \<open>
  \<open>response = chat.send_message(msg); response_message = response.candidates[0].content\<close>:
  the two statements that follow each other at every send.
\<close>

definition send_and_read ::
  "'w env \<Rightarrow> 'w state \<Rightarrow> message \<Rightarrow> 'w state \<times> (exn + content)" where
  "send_and_read env st msg =
     (case chat_send_message env st msg of
        (st1, Inl e) \<Rightarrow> (st1, Inl e)
      | (st1, Inr response) \<Rightarrow>
          (case candidates response of
             [] \<Rightarrow> (st1, Inl (IndexError ''list index out of range''))
           | c # cs \<Rightarrow> (st1, Inr c)))"

text \<open>The list wrap between the executor and the tool response.\<close>

definition wrap_list :: "json \<Rightarrow> json" where
  "wrap_list tool_response_data =
     (case tool_response_data of
        JList xs \<Rightarrow> JObj [(''results'', JList xs)]
      | _ \<Rightarrow> tool_response_data)"

text \<open>The message the handler sends: its payload is an object, so it can be built.\<close>

definition error_response :: "string \<Rightarrow> exn \<Rightarrow> message" where
  "error_response tool_name e =
     FunctionResponse tool_name
       (JObj [(''error'', JStr (''Failed to execute tool: '' @ str e))])"

text \<open>
  Modelled from the spec: the protocol type behind
  \<open>genai.protos.FunctionResponse(**tool_response)\<close> is not part of the sources.  By the
  spec's data model the model-facing protocol requires an object-shaped response body, so
  building the protocol object succeeds for a payload that is an object and raises, before
  anything is sent, for any other payload.
\<close>

definition function_response :: "'w env \<Rightarrow> string \<Rightarrow> json \<Rightarrow> exn + message" where
  "function_response env tool_name payload =
     (if is_object payload then Inr (FunctionResponse tool_name payload)
      else Inl (refuse env payload))"

text \<open>
  The body of the inner \<open>try\<close> and its \<open>except Exception\<close> handler.  The dict
  comprehension over \<open>function_call.args.items()\<close> copies the arguments as they are.  The
  protocol object is built inside the \<open>try\<close>, and again inside the handler.
\<close>

definition tool_try ::
  "'w env \<Rightarrow> 'w mcp option \<Rightarrow> 'w state \<Rightarrow> string \<Rightarrow> dict \<Rightarrow> 'w state \<times> (exn + content)" where
  "tool_try env mcp_instance st tool_name tool_args =
     (case execute_tool env mcp_instance st tool_name tool_args of
        (st1, Inl e) \<Rightarrow> (st1, Inl e)
      | (st1, Inr tool_response_data) \<Rightarrow>
          (case function_response env tool_name (wrap_list tool_response_data) of
             Inl e \<Rightarrow> (st1, Inl e)
           | Inr msg \<Rightarrow> send_and_read env st1 msg))"

definition tool_round ::
  "'w env \<Rightarrow> 'w mcp option \<Rightarrow> 'w state \<Rightarrow> function_call \<Rightarrow> 'w state \<times> (exn + content)" where
  "tool_round env mcp_instance st function_call =
     (let tool_name = fc_name function_call;
          tool_args = fc_args function_call
      in case tool_try env mcp_instance st tool_name tool_args of
           (st1, Inr response_message) \<Rightarrow> (st1, Inr response_message)
         | (st1, Inl e) \<Rightarrow>
             (case function_response env tool_name
                     (JObj [(''error'', JStr (''Failed to execute tool: '' @ str e))]) of
                Inl e1 \<Rightarrow> (st1, Inl e1)
              | Inr msg \<Rightarrow> send_and_read env st1 msg))"

text \<open>
  The condition of the \<open>while\<close>: the parts are not empty and the first part has a function
  call; the result is that function call.
\<close>

definition requested_call :: "content \<Rightarrow> function_call option" where
  "requested_call response_message =
     (case parts response_message of
        [] \<Rightarrow> None
      | p # ps \<Rightarrow> part_function_call p)"

text \<open>
  The \<open>while\<close> loop.  It has no bound, so it is a partial function: \<open>None\<close> is a loop that
  never ends.  It ends with the reply that made the condition false, or with the exception
  that left the handler.
\<close>

partial_function (option) tool_call_loop ::
  "'w env \<Rightarrow> 'w mcp option \<Rightarrow> 'w state \<Rightarrow> content \<Rightarrow> ('w state \<times> (exn + content)) option"
where
  "tool_call_loop env mcp_instance st response_message =
     (case requested_call response_message of
        None \<Rightarrow> Some (st, Inr response_message)
      | Some function_call \<Rightarrow>
          (case tool_round env mcp_instance st function_call of
             (st1, Inl e) \<Rightarrow> Some (st1, Inl e)
           | (st1, Inr response_message1) \<Rightarrow>
               tool_call_loop env mcp_instance st1 response_message1))"

definition fallback_text :: string where
  "fallback_text = ''I have processed your request. Is there anything else I can help with?''"

definition apology_text :: string where
  "apology_text =
     ''I'' @ [CHR 0x27] @ ''m sorry, but I encountered an error while trying to process your request. Please try again later.''"

text \<open>The \<open>if\<close> after the loop.\<close>

definition final_text :: "content \<Rightarrow> string" where
  "final_text response_message =
     (case parts response_message of
        [] \<Rightarrow> fallback_text
      | p # ps \<Rightarrow> (if part_text p \<noteq> [] then part_text p else fallback_text))"

text \<open>
  The body of the outer \<open>try\<close>.  \<open>model.start_chat\<close> only creates the session object and
  the \<open>print\<close> calls only write to the console; neither is modelled.
\<close>

definition turn_body ::
  "'w env \<Rightarrow> 'w state \<Rightarrow> string \<Rightarrow> json \<Rightarrow> 'w mcp option \<Rightarrow>
   ('w state \<times> (exn + string)) option" where
  "turn_body env st user_prompt tools mcp_instance =
     (case send_and_read env st (UserPrompt user_prompt tools) of
        (st1, Inl e) \<Rightarrow> Some (st1, Inl e)
      | (st1, Inr response_message) \<Rightarrow>
          (case tool_call_loop env mcp_instance st1 response_message of
             None \<Rightarrow> None
           | Some (st2, Inl e) \<Rightarrow> Some (st2, Inl e)
           | Some (st2, Inr final) \<Rightarrow> Some (st2, Inr (final_text final))))"

text \<open>
  The whole function: the outer handler turns every exception into the apology.  The
  result is still typed as a value or an exception, as for any Python function.
\<close>

definition generate_response_with_gemini ::
  "'w env \<Rightarrow> 'w state \<Rightarrow> string \<Rightarrow> json \<Rightarrow> 'w mcp option \<Rightarrow>
   ('w state \<times> (exn + string)) option" where
  "generate_response_with_gemini env st user_prompt tools mcp_instance =
     (case turn_body env st user_prompt tools mcp_instance of
        None \<Rightarrow> None
      | Some (st1, Inl e) \<Rightarrow> Some (st1, Inr apology_text)
      | Some (st1, Inr txt) \<Rightarrow> Some (st1, Inr txt))"

section \<open>The entry point: chat_with_agent (main.py)\<close>

record chat_request =
  prompt :: string
  history :: "json list option"

datatype http_exception = HTTPException (status_code: nat) (detail: string)

definition no_parameters :: json where
  "no_parameters =
     JObj [(''type'', JStr ''object''), (''properties'', JObj []), (''required'', JList [])]"

definition string_property :: "string \<Rightarrow> json" where
  "string_property description =
     JObj [(''type'', JStr ''string''), (''description'', JStr description)]"

definition function_declaration :: "string \<Rightarrow> string \<Rightarrow> json \<Rightarrow> json" where
  "function_declaration tool_name description parameters =
     JObj [(''name'', JStr tool_name), (''description'', JStr description),
           (''parameters'', parameters)]"

text \<open>The literal \<open>tools\<close> of \<open>chat_with_agent\<close>.\<close>

definition tools :: json where
  "tools =
     JList [JObj [(''function_declarations'', JList [
       function_declaration ''get_categories_tool''
         ''Fetch all product categories available in the ecommerce system'' no_parameters,
       function_declaration ''get_products_tool''
         ''Fetch all products along with their associated category'' no_parameters,
       function_declaration ''search_products_tool''
         ''Search for products using a search term''
         (JObj [(''type'', JStr ''object''),
                (''properties'', JObj [
                   (''searchTerm'', string_property ''The search term to look for products'')]),
                (''required'', JList [JStr ''searchTerm''])]),
       function_declaration ''search_hotels_tool''
         ''Search for hotels based on location and other criteria''
         (JObj [(''type'', JStr ''object''),
                (''properties'', JObj [
                   (''location'', string_property ''Location to search for hotels''),
                   (''checkInDate'', string_property ''Check-in date in YYYY-MM-DD format''),
                   (''checkOutDate'', string_property ''Check-out date in YYYY-MM-DD format''),
                   (''numGuests'',
                      JObj [(''type'', JStr ''integer''),
                            (''description'', JStr ''Number of guests'')]),
                   (''roomType'', string_property ''Type of room required'')]),
                (''required'', JList [JStr ''location''])])])]]"

text \<open>
  \<open>chat_with_agent\<close>: the guard on the prompt, then the driver with \<open>mcp_instance=None\<close>;
  an exception of the driver would become a 500.
\<close>

definition chat_with_agent ::
  "'w env \<Rightarrow> 'w state \<Rightarrow> chat_request \<Rightarrow> ('w state \<times> (http_exception + json)) option" where
  "chat_with_agent env st request =
     (if prompt request = [] then
        Some (st, Inl (HTTPException 400 ''Prompt cannot be empty.''))
      else
        (case generate_response_with_gemini env st (prompt request) tools None of
           None \<Rightarrow> None
         | Some (st1, Inr response_text) \<Rightarrow>
             Some (st1, Inr (JObj [(''response'', JStr response_text)]))
         | Some (st1, Inl e) \<Rightarrow>
             Some (st1, Inl (HTTPException 500
               (''An error occurred while processing your request: '' @ str e)))))"

section \<open>Notions used in the statements\<close>

text \<open>The reply the model gave to the last message sent, read off the trace.\<close>

fun reply_of :: "event \<Rightarrow> content option" where
  "reply_of (SendMessage msg (Inr response)) =
     (case candidates response of [] \<Rightarrow> None | c # cs \<Rightarrow> Some c)"
| "reply_of e = None"

definition last_reply :: "event list \<Rightarrow> content option" where
  "last_reply tr = (case rev tr of [] \<Rightarrow> None | e # es \<Rightarrow> reply_of e)"

text \<open>The tool responses sent to the model and the requests made to the tool server.\<close>

fun is_tool_response :: "event \<Rightarrow> bool" where
  "is_tool_response (SendMessage (FunctionResponse tool_name payload) r) = True"
| "is_tool_response e = False"

fun is_http_get :: "event \<Rightarrow> bool" where
  "is_http_get (HttpGet url params r) = True"
| "is_http_get e = False"

text \<open>
  A model endpoint that answers every message, whatever the state of the world, with a
  reply whose first part asks for a tool.
\<close>

definition keeps_requesting_tools :: "'w env \<Rightarrow> bool" where
  "keeps_requesting_tools env \<longleftrightarrow>
     (\<forall>w msg. \<exists>w1 c cs. send_message env w msg = (w1, Inr (Response (c # cs)))
                        \<and> requested_call c \<noteq> None)"

text \<open>Every tool response in a trace carries an object.\<close>

fun tool_response_is_object :: "event \<Rightarrow> bool" where
  "tool_response_is_object (SendMessage (FunctionResponse tool_name payload) r) =
     is_object payload"
| "tool_response_is_object e = True"

definition object_payloads :: "event list \<Rightarrow> bool" where
  "object_payloads tr = list_all tool_response_is_object tr"

text \<open>What a call leaves behind besides the trace: the world and the value or exception.\<close>

definition outcome :: "'w state \<times> 'a \<Rightarrow> 'w \<times> 'a" where
  "outcome x = (world (fst x), snd x)"

section \<open>Example environments\<close>

text \<open>
  A model endpoint that plays a fixed list of replies, one per message, and raises when the
  list is used up; behind the HTTP client, a server that answers every request with status
  200 and the same JSON body.  The world is the list of replies still to come.  The text
  of the exception for a payload that is not an object stands for the library's own.
\<close>

definition ok_response :: "json \<Rightarrow> http_response" where
  "ok_response body = \<lparr>raise_for_status = None, response_json = Inr body\<rparr>"

definition scripted :: "json \<Rightarrow> response list env" where
  "scripted body =
     \<lparr>send_message = (\<lambda>w msg. case w of
                          [] \<Rightarrow> ([], Inl (OtherException ''no reply''))
                        | r # rs \<Rightarrow> (rs, Inr r)),
      client_get = (\<lambda>w url params. (w, Inr (ok_response body))),
      refuse = (\<lambda>payload. OtherException ''response is not a mapping'')\<rparr>"

definition start :: "response list \<Rightarrow> response list state" where
  "start replies = \<lparr>world = replies, trace = []\<rparr>"

definition tool_request :: "string \<Rightarrow> dict \<Rightarrow> response" where
  "tool_request tool_name tool_args =
     Response [Content [Part (Some (FunctionCall tool_name tool_args)) []]]"

definition text_reply :: "string \<Rightarrow> response" where
  "text_reply txt = Response [Content [Part None txt]]"

text \<open>A model endpoint that asks for the product list again at every message.\<close>

definition insistent :: "unit env" where
  "insistent =
     \<lparr>send_message = (\<lambda>w msg. (w, Inr (tool_request ''get_products_tool'' []))),
      client_get = (\<lambda>w url params. (w, Inr (ok_response (JList [])))),
      refuse = (\<lambda>payload. OtherException ''response is not a mapping'')\<rparr>"

text \<open>
  A FastMCP instance that knows no tool, and one that has the four tools of the shop, each
  returning the same fixed value.
\<close>

definition empty_mcp :: "'w mcp" where
  "empty_mcp = Mcp (\<lambda>w tool_name. (w, Inl (OtherException (''Unknown tool: '' @ tool_name))))"

definition shop_mcp :: "json \<Rightarrow> 'w mcp" where
  "shop_mcp result =
     Mcp (\<lambda>w tool_name.
       if tool_name \<in> {''get_categories_tool'', ''get_products_tool'',
                        ''search_products_tool'', ''search_hotels_tool''}
       then (w, Inr (Tool (Some (\<lambda>w1 kwargs. (w1, Inr result)))))
       else (w, Inl (OtherException (''Unknown tool: '' @ tool_name))))"

text \<open>A script of \<open>n\<close> requests for the product list, then a text answer.\<close>

definition products_script :: "nat \<Rightarrow> response list" where
  "products_script n = replicate n (tool_request ''get_products_tool'' []) @ [text_reply ''Done.'']"

section \<open>The remote-proxy executor\<close>

lemma local_request_search_products:
  "local_request ''search_products_tool'' tool_args =
     Inr (base_url @ ''/products/search'',
          Some [(''searchTerm'',
                 case map_of tool_args ''searchTerm'' of Some v \<Rightarrow> v | None \<Rightarrow> JStr '''')])"
  by (simp add: local_request_def)

lemma execute_local_tool_request:
  "local_request tool_name tool_args = Inr (url, params) \<Longrightarrow>
   execute_local_tool env st tool_name tool_args =
     (case http_client_get env st url params of
        (st1, Inl e) \<Rightarrow> (st1, Inl e)
      | (st1, Inr response) \<Rightarrow>
          (case raise_for_status response of
             Some e \<Rightarrow> (st1, Inl e)
           | None \<Rightarrow> (st1, response_json response)))"
  by (simp add: execute_local_tool_def)

lemma trace_http_client_get:
  "trace (fst (http_client_get env st url params)) =
     trace st @ [HttpGet url params (snd (client_get env (world st) url params))]"
  by (simp add: http_client_get_def split: prod.splits)

lemma trace_execute_local_tool_request:
  "local_request tool_name tool_args = Inr (url, params) \<Longrightarrow>
   trace (fst (execute_local_tool env st tool_name tool_args)) =
     trace st @ [HttpGet url params (snd (client_get env (world st) url params))]"
  by (simp add: execute_local_tool_def http_client_get_def
           split: prod.splits sum.splits option.splits)


text \<open>
  C10: when the model asks for \<open>search_products_tool\<close> with arguments that have no
  \<open>searchTerm\<close> key, the remote-proxy executor raises nothing of its own: the request it
  makes is the product search with \<open>searchTerm\<close> set to the empty string, the call behaves
  as if the model had passed \<open>searchTerm = ""\<close>, and when the server answers with a good
  status the executor returns the body of that answer.
\<close>

theorem search_products_without_searchTerm:
  assumes "map_of tool_args ''searchTerm'' = None"
  shows "local_request ''search_products_tool'' tool_args =
           Inr (base_url @ ''/products/search'', Some [(''searchTerm'', JStr '''')])
       \<and> execute_local_tool env st ''search_products_tool'' tool_args =
           execute_local_tool env st ''search_products_tool'' [(''searchTerm'', JStr '''')]
       \<and> trace (fst (execute_local_tool env st ''search_products_tool'' tool_args)) =
           trace st @
           [HttpGet (base_url @ ''/products/search'') (Some [(''searchTerm'', JStr '''')])
              (snd (client_get env (world st) (base_url @ ''/products/search'')
                      (Some [(''searchTerm'', JStr '''')])))]
       \<and> (\<forall>w r. client_get env (world st) (base_url @ ''/products/search'')
                    (Some [(''searchTerm'', JStr '''')]) = (w, Inr r)
                 \<and> raise_for_status r = None
              \<longrightarrow> snd (execute_local_tool env st ''search_products_tool'' tool_args) =
                    response_json r)"
proof -
  have req: "local_request ''search_products_tool'' tool_args =
               Inr (base_url @ ''/products/search'', Some [(''searchTerm'', JStr '''')])"
    using assms by (simp add: local_request_search_products)
  have req': "local_request ''search_products_tool'' [(''searchTerm'', JStr '''')] =
               Inr (base_url @ ''/products/search'', Some [(''searchTerm'', JStr '''')])"
    by (simp add: local_request_search_products)
  have same: "execute_local_tool env st ''search_products_tool'' tool_args =
               execute_local_tool env st ''search_products_tool'' [(''searchTerm'', JStr '''')]"
    by (simp only: execute_local_tool_request [OF req] execute_local_tool_request [OF req'])
  have ret: "\<forall>w r. client_get env (world st) (base_url @ ''/products/search'')
                    (Some [(''searchTerm'', JStr '''')]) = (w, Inr r)
                 \<and> raise_for_status r = None
              \<longrightarrow> snd (execute_local_tool env st ''search_products_tool'' tool_args) =
                    response_json r"
    by (simp add: execute_local_tool_request [OF req] http_client_get_def)
  show ?thesis
    using req same trace_execute_local_tool_request [OF req] ret by blast
qed

theorem search_products_without_searchTerm_witness:
  "map_of [(''query'', JStr ''belt'')] ''searchTerm'' = None
   \<and> execute_local_tool (scripted (JList [])) (start []) ''search_products_tool''
       [(''query'', JStr ''belt'')] =
     (\<lparr>world = [],
       trace = [HttpGet ''http://localhost:8001/products/search''
                  (Some [(''searchTerm'', JStr '''')]) (Inr (ok_response (JList [])))]\<rparr>,
      Inr (JList []))"
proof -
  have h: "map_of [(''query'', JStr ''belt'')] ''searchTerm'' = None"
    by simp
  have w: "execute_local_tool (scripted (JList [])) (start []) ''search_products_tool''
             [(''searchTerm'', JStr '''')] =
           (\<lparr>world = [],
             trace = [HttpGet ''http://localhost:8001/products/search''
                        (Some [(''searchTerm'', JStr '''')]) (Inr (ok_response (JList [])))]\<rparr>,
            Inr (JList []))"
    by (simp add: execute_local_tool_def local_request_def http_client_get_def scripted_def
          start_def ok_response_def base_url_def)
  show ?thesis
    using h w search_products_without_searchTerm [OF h, of "scripted (JList [])" "start []"]
    by simp
qed


text \<open>
  C9, as the code has it: the remote-proxy executor passes the argument mapping on
  unchanged for \<open>search_hotels_tool\<close> only.  For \<open>search_products_tool\<close> the one query
  parameter is \<open>searchTerm\<close>, read from the mapping by that key (the empty string when it is
  missing).  For \<open>get_categories_tool\<close> and \<open>get_products_tool\<close> no parameter is sent,
  whatever the mapping holds.  In each case that request is the only call made, and its
  values are the model's, not converted.  Any other tool name raises
  \<open>ValueError("Unknown tool: <name>")\<close> and no request is made.
\<close>

theorem local_tool_argument_mapping:
  "local_request ''search_hotels_tool'' tool_args =
     Inr (base_url @ ''/hotels/search'', Some tool_args)
   \<and> local_request ''search_products_tool'' tool_args =
     Inr (base_url @ ''/products/search'',
          Some [(''searchTerm'',
                 case map_of tool_args ''searchTerm'' of Some v \<Rightarrow> v | None \<Rightarrow> JStr '''')])
   \<and> local_request ''get_categories_tool'' tool_args = Inr (base_url @ ''/categories'', None)
   \<and> local_request ''get_products_tool'' tool_args = Inr (base_url @ ''/products'', None)
   \<and> (\<forall>url params. local_request tool_name tool_args = Inr (url, params) \<longrightarrow>
         trace (fst (execute_local_tool env st tool_name tool_args)) =
           trace st @ [HttpGet url params (snd (client_get env (world st) url params))])
   \<and> (tool_name \<notin> {''get_categories_tool'', ''get_products_tool'', ''search_products_tool'',
                     ''search_hotels_tool''} \<longrightarrow>
         execute_local_tool env st tool_name tool_args =
           (st, Inl (ValueError (''Unknown tool: '' @ tool_name))))"
proof -
  have unknown: "tool_name \<notin> {''get_categories_tool'', ''get_products_tool'',
                     ''search_products_tool'', ''search_hotels_tool''} \<longrightarrow>
         execute_local_tool env st tool_name tool_args =
           (st, Inl (ValueError (''Unknown tool: '' @ tool_name)))"
    by (simp add: execute_local_tool_def local_request_def)
  have known: "local_request ''search_hotels_tool'' tool_args =
                 Inr (base_url @ ''/hotels/search'', Some tool_args)"
    "local_request ''get_categories_tool'' tool_args = Inr (base_url @ ''/categories'', None)"
    "local_request ''get_products_tool'' tool_args = Inr (base_url @ ''/products'', None)"
    by (simp_all add: local_request_def)
  show ?thesis
    using unknown known local_request_search_products [of tool_args]
      trace_execute_local_tool_request [of tool_name tool_args _ _ env st]
    by blast
qed

theorem local_tool_argument_mapping_witness:
  "local_request ''search_hotels_tool'' [(''location'', JStr ''Hyderabad''), (''numGuests'', JNum 2)] =
     Inr (''http://localhost:8001/hotels/search'',
          Some [(''location'', JStr ''Hyderabad''), (''numGuests'', JNum 2)])
   \<and> trace (fst (execute_local_tool (scripted (JObj [])) (start []) ''search_hotels_tool''
               [(''location'', JStr ''Hyderabad''), (''numGuests'', JNum 2)])) =
     [HttpGet ''http://localhost:8001/hotels/search''
        (Some [(''location'', JStr ''Hyderabad''), (''numGuests'', JNum 2)])
        (Inr (ok_response (JObj [])))]
   \<and> ''book_flight_tool'' \<notin> {''get_categories_tool'', ''get_products_tool'',
        ''search_products_tool'', ''search_hotels_tool''}
   \<and> execute_local_tool (scripted (JObj [])) (start []) ''book_flight_tool'' [] =
     (start [], Inl (ValueError ''Unknown tool: book_flight_tool''))"
proof -
  have h: "''book_flight_tool'' \<notin> {''get_categories_tool'', ''get_products_tool'',
        ''search_products_tool'', ''search_hotels_tool''}"
    by simp
  have c: "snd (client_get (scripted (JObj [])) (world (start []))
                  ''http://localhost:8001/hotels/search''
                  (Some [(''location'', JStr ''Hyderabad''), (''numGuests'', JNum 2)])) =
           Inr (ok_response (JObj []))"
    by (simp add: scripted_def)
  have t: "trace (start []) = []"
    by (simp add: start_def)
  show ?thesis
    using h c t
      local_tool_argument_mapping [of "[(''location'', JStr ''Hyderabad''), (''numGuests'', JNum 2)]"
        "''search_hotels_tool''" "scripted (JObj [])" "start []"]
      local_tool_argument_mapping [of "[]" "''book_flight_tool''" "scripted (JObj [])" "start []"]
    by (simp add: base_url_def)
qed

theorem local_tool_drops_arguments_counterexample:
  "execute_local_tool (scripted (JList [])) (start []) ''get_categories_tool''
     [(''parent_category_id'', JNum 3)] =
   (\<lparr>world = [],
     trace = [HttpGet ''http://localhost:8001/categories'' None (Inr (ok_response (JList [])))]\<rparr>,
    Inr (JList []))"
  by (simp add: execute_local_tool_def local_request_def http_client_get_def scripted_def
        start_def ok_response_def base_url_def)


section \<open>The driver\<close>

lemma trace_send_and_read:
  "trace (fst (send_and_read env st msg)) =
     trace st @ [SendMessage msg (snd (send_message env (world st) msg))]"
  by (simp add: send_and_read_def chat_send_message_def
           split: prod.splits sum.splits list.splits)

lemma tool_call_loop_exit:
  "requested_call response_message = None \<Longrightarrow>
   tool_call_loop env mcp_instance st response_message = Some (st, Inr response_message)"
  by (subst tool_call_loop.simps) simp

lemma tool_call_loop_round:
  "requested_call response_message = Some function_call \<Longrightarrow>
   tool_call_loop env mcp_instance st response_message =
     (case tool_round env mcp_instance st function_call of
        (st1, Inl e) \<Rightarrow> Some (st1, Inl e)
      | (st1, Inr response_message1) \<Rightarrow> tool_call_loop env mcp_instance st1 response_message1)"
  by (subst tool_call_loop.simps) simp

lemma tool_round_failure:
  "execute_tool env mcp_instance st (fc_name function_call) (fc_args function_call) =
     (st1, Inl e) \<Longrightarrow>
   tool_round env mcp_instance st function_call =
     send_and_read env st1 (error_response (fc_name function_call) e)"
  by (simp add: tool_round_def tool_try_def function_response_def error_response_def Let_def)

lemma tool_round_success:
  "execute_tool env mcp_instance st (fc_name function_call) (fc_args function_call) =
     (st1, Inr tool_response_data) \<Longrightarrow>
   is_object (wrap_list tool_response_data) \<Longrightarrow>
   tool_round env mcp_instance st function_call =
     (case send_and_read env st1
             (FunctionResponse (fc_name function_call) (wrap_list tool_response_data)) of
        (st2, Inr response_message) \<Rightarrow> (st2, Inr response_message)
      | (st2, Inl e) \<Rightarrow> send_and_read env st2 (error_response (fc_name function_call) e))"
  by (simp add: tool_round_def tool_try_def function_response_def error_response_def Let_def
           split: prod.splits sum.splits)

lemma tool_round_refused:
  "execute_tool env mcp_instance st (fc_name function_call) (fc_args function_call) =
     (st1, Inr tool_response_data) \<Longrightarrow>
   \<not> is_object (wrap_list tool_response_data) \<Longrightarrow>
   tool_round env mcp_instance st function_call =
     send_and_read env st1
       (error_response (fc_name function_call) (refuse env (wrap_list tool_response_data)))"
  by (simp add: tool_round_def tool_try_def function_response_def error_response_def Let_def)

lemma generate_response_returns_text:
  "generate_response_with_gemini env st user_prompt tls mcp_instance = Some (st1, r) \<Longrightarrow>
   \<exists>txt. r = Inr txt"
  by (auto simp: generate_response_with_gemini_def split: option.splits sum.splits)

text \<open>
  C1: when the executor raises \<open>e\<close> for the tool the model asked for, the round does not end
  the turn.  The next call the driver makes is \<open>send_message\<close> with the tool response
  \<open>{name, response: {error: "Failed to execute tool: " + str(e)}}\<close> for that tool name, and
  when the model answers it the loop goes on with that answer.  Nothing is raised to the
  caller: whatever the driver returns is text.
\<close>

theorem tool_failure_sent_to_model:
  assumes "requested_call response_message = Some function_call"
    and "execute_tool env mcp_instance st (fc_name function_call) (fc_args function_call) =
           (st1, Inl e)"
  shows "tool_call_loop env mcp_instance st response_message =
           (case send_and_read env st1
                   (FunctionResponse (fc_name function_call)
                      (JObj [(''error'', JStr (''Failed to execute tool: '' @ str e))])) of
              (st2, Inl e2) \<Rightarrow> Some (st2, Inl e2)
            | (st2, Inr response_message2) \<Rightarrow>
                tool_call_loop env mcp_instance st2 response_message2)
       \<and> trace (fst (send_and_read env st1
                   (FunctionResponse (fc_name function_call)
                      (JObj [(''error'', JStr (''Failed to execute tool: '' @ str e))])))) =
           trace st1 @
           [SendMessage
              (FunctionResponse (fc_name function_call)
                 (JObj [(''error'', JStr (''Failed to execute tool: '' @ str e))]))
              (snd (send_message env (world st1)
                 (FunctionResponse (fc_name function_call)
                    (JObj [(''error'', JStr (''Failed to execute tool: '' @ str e))]))))]
       \<and> (\<forall>st0 user_prompt tls st3 r.
             generate_response_with_gemini env st0 user_prompt tls mcp_instance = Some (st3, r)
             \<longrightarrow> (\<exists>txt. r = Inr txt))"
proof -
  have "tool_call_loop env mcp_instance st response_message =
          (case send_and_read env st1 (error_response (fc_name function_call) e) of
             (st2, Inl e2) \<Rightarrow> Some (st2, Inl e2)
           | (st2, Inr response_message2) \<Rightarrow>
               tool_call_loop env mcp_instance st2 response_message2)"
    by (simp only: tool_call_loop_round [OF assms(1)] tool_round_failure [OF assms(2)])
  then show ?thesis
    using generate_response_returns_text [of env _ _ _ mcp_instance]
    by (simp only: error_response_def trace_send_and_read) blast
qed

text \<open>The loop on a reply given by its constructors, for evaluation.\<close>

lemma tool_call_loop_no_parts:
  "tool_call_loop env mcp_instance st (Content []) = Some (st, Inr (Content []))"
  by (simp add: tool_call_loop_exit requested_call_def)

lemma tool_call_loop_no_call:
  "tool_call_loop env mcp_instance st (Content (Part None txt # ps)) =
     Some (st, Inr (Content (Part None txt # ps)))"
  by (simp add: tool_call_loop_exit requested_call_def)

lemma tool_call_loop_call:
  "tool_call_loop env mcp_instance st (Content (Part (Some function_call) txt # ps)) =
     (case tool_round env mcp_instance st function_call of
        (st1, Inl e) \<Rightarrow> Some (st1, Inl e)
      | (st1, Inr response_message1) \<Rightarrow> tool_call_loop env mcp_instance st1 response_message1)"
  by (simp add: tool_call_loop_round requested_call_def)

lemmas driver_eval =
  generate_response_with_gemini_def turn_body_def send_and_read_def chat_send_message_def
  tool_call_loop_no_parts tool_call_loop_no_call tool_call_loop_call
  tool_round_def tool_try_def function_response_def execute_tool_def execute_local_tool_def
  local_request_def http_client_get_def error_response_def wrap_list_def final_text_def
  base_url_def Let_def

lemmas example_eval =
  scripted_def start_def tool_request_def text_reply_def ok_response_def


theorem tool_failure_sent_to_model_witness:
  "requested_call (Content [Part (Some (FunctionCall ''book_flight_tool'' [])) []]) =
     Some (FunctionCall ''book_flight_tool'' [])
   \<and> execute_tool (scripted (JList [])) None (start [text_reply ''Sorry, no flights.''])
       ''book_flight_tool'' [] =
     (start [text_reply ''Sorry, no flights.''],
      Inl (ValueError ''Unknown tool: book_flight_tool''))
   \<and> tool_call_loop (scripted (JList [])) None (start [text_reply ''Sorry, no flights.''])
       (Content [Part (Some (FunctionCall ''book_flight_tool'' [])) []]) =
     Some (\<lparr>world = [],
            trace = [SendMessage
                       (FunctionResponse ''book_flight_tool''
                          (JObj [(''error'',
                                  JStr ''Failed to execute tool: Unknown tool: book_flight_tool'')]))
                       (Inr (text_reply ''Sorry, no flights.''))]\<rparr>,
           Inr (Content [Part None ''Sorry, no flights.'']))
   \<and> generate_response_with_gemini (scripted (JList []))
       (start [tool_request ''book_flight_tool'' [], text_reply ''Sorry, no flights.''])
       ''Book a flight'' tools None =
     Some (\<lparr>world = [],
            trace = [SendMessage (UserPrompt ''Book a flight'' tools)
                       (Inr (tool_request ''book_flight_tool'' [])),
                     SendMessage
                       (FunctionResponse ''book_flight_tool''
                          (JObj [(''error'',
                                  JStr ''Failed to execute tool: Unknown tool: book_flight_tool'')]))
                       (Inr (text_reply ''Sorry, no flights.''))]\<rparr>,
           Inr ''Sorry, no flights.'')"
proof -
  let ?fc = "FunctionCall ''book_flight_tool'' []"
  let ?st = "start [text_reply ''Sorry, no flights.'']"
  have h1: "requested_call (Content [Part (Some ?fc) []]) = Some ?fc"
    by (simp add: requested_call_def)
  have h2: "execute_tool (scripted (JList [])) None ?st (fc_name ?fc) (fc_args ?fc) =
              (?st, Inl (ValueError ''Unknown tool: book_flight_tool''))"
    by (simp add: execute_tool_def execute_local_tool_def local_request_def)
  note round = tool_failure_sent_to_model [OF h1 h2]
  have loop: "tool_call_loop (scripted (JList [])) None ?st (Content [Part (Some ?fc) []]) =
                (case send_and_read (scripted (JList [])) ?st
                        (FunctionResponse ''book_flight_tool''
                           (JObj [(''error'',
                                   JStr ''Failed to execute tool: Unknown tool: book_flight_tool'')])) of
                   (st2, Inl e2) \<Rightarrow> Some (st2, Inl e2)
                 | (st2, Inr response_message2) \<Rightarrow>
                     tool_call_loop (scripted (JList [])) None st2 response_message2)"
    using round by simp
  have sent: "send_and_read (scripted (JList [])) ?st
                (FunctionResponse ''book_flight_tool''
                   (JObj [(''error'',
                           JStr ''Failed to execute tool: Unknown tool: book_flight_tool'')])) =
              (\<lparr>world = [],
                trace = [SendMessage
                           (FunctionResponse ''book_flight_tool''
                              (JObj [(''error'',
                                      JStr ''Failed to execute tool: Unknown tool: book_flight_tool'')]))
                           (Inr (text_reply ''Sorry, no flights.''))]\<rparr>,
               Inr (Content [Part None ''Sorry, no flights.'']))"
    by (simp add: send_and_read_def chat_send_message_def example_eval)
  have whole: "generate_response_with_gemini (scripted (JList []))
       (start [tool_request ''book_flight_tool'' [], text_reply ''Sorry, no flights.''])
       ''Book a flight'' tools None =
     Some (\<lparr>world = [],
            trace = [SendMessage (UserPrompt ''Book a flight'' tools)
                       (Inr (tool_request ''book_flight_tool'' [])),
                     SendMessage
                       (FunctionResponse ''book_flight_tool''
                          (JObj [(''error'',
                                  JStr ''Failed to execute tool: Unknown tool: book_flight_tool'')]))
                       (Inr (text_reply ''Sorry, no flights.''))]\<rparr>,
           Inr ''Sorry, no flights.'')"
    by (simp add: driver_eval example_eval)
  have h2': "execute_tool (scripted (JList [])) None ?st ''book_flight_tool'' [] =
              (?st, Inl (ValueError ''Unknown tool: book_flight_tool''))"
    using h2 by simp
  show ?thesis
    using h1 h2' whole
    by (simp add: loop sent tool_call_loop_no_call)
qed

lemma object_payloads_snoc:
  "object_payloads (tr @ [e]) \<longleftrightarrow> object_payloads tr \<and> tool_response_is_object e"
  by (simp add: object_payloads_def)

lemma http_client_get_object_payloads:
  "object_payloads (trace (fst (http_client_get env st url params))) =
   object_payloads (trace st)"
  by (simp add: http_client_get_def object_payloads_snoc split: prod.splits)

lemma execute_local_tool_object_payloads:
  "object_payloads (trace (fst (execute_local_tool env st tool_name tool_args))) =
   object_payloads (trace st)"
proof (cases "local_request tool_name tool_args")
  case (Inl e)
  then show ?thesis by (simp add: execute_local_tool_def)
next
  case (Inr request)
  obtain url params where request: "request = (url, params)"
    by (cases request)
  have "fst (execute_local_tool env st tool_name tool_args) =
          fst (http_client_get env st url params)"
    using Inr request
    by (simp add: execute_local_tool_def split: prod.splits sum.splits option.splits)
  then show ?thesis
    by (simp add: http_client_get_object_payloads)
qed

lemma mcp_try_object_payloads:
  "object_payloads (trace (fst (mcp_try m st tool_name tool_args))) =
   object_payloads (trace st)"
proof -
  obtain st1 r where got: "mcp_get_tool m st tool_name = (st1, r)"
    by (cases "mcp_get_tool m st tool_name")
  then have st1: "object_payloads (trace st1) = object_payloads (trace st)"
    by (auto simp: mcp_get_tool_def object_payloads_snoc split: prod.splits)
  have called: "\<And>f kwargs. object_payloads (trace (fst (mcp_call_fn f st1 tool_name kwargs))) =
                  object_payloads (trace st1)"
    by (simp add: mcp_call_fn_def object_payloads_snoc split: prod.splits)
  show ?thesis
  proof (cases r)
    case (Inl e)
    with got st1 show ?thesis by (simp add: mcp_try_def)
  next
    case (Inr tool)
    with got st1 called show ?thesis
      by (cases "fn tool") (simp_all add: mcp_try_def)
  qed
qed

lemma execute_tool_object_payloads:
  "object_payloads (trace (fst (execute_tool env mcp_instance st tool_name tool_args))) =
   object_payloads (trace st)"
proof (cases mcp_instance)
  case None
  then show ?thesis
    by (simp add: execute_tool_def execute_local_tool_object_payloads)
next
  case (Some m)
  obtain st1 r where tried: "mcp_try m st tool_name tool_args = (st1, r)"
    by (cases "mcp_try m st tool_name tool_args")
  with mcp_try_object_payloads [of m st tool_name tool_args]
  have st1: "object_payloads (trace st1) = object_payloads (trace st)"
    by simp
  from Some tried st1 show ?thesis
    by (cases r)
       (simp_all add: execute_tool_def execute_mcp_tool_def execute_local_tool_object_payloads)
qed

lemma send_and_read_object_payloads:
  "object_payloads (trace (fst (send_and_read env st (FunctionResponse tool_name payload)))) \<longleftrightarrow>
     object_payloads (trace st) \<and> is_object payload"
  "object_payloads (trace (fst (send_and_read env st (UserPrompt user_prompt tls)))) \<longleftrightarrow>
     object_payloads (trace st)"
  by (simp_all add: trace_send_and_read object_payloads_snoc)

lemma tool_round_object_payloads:
  assumes "object_payloads (trace st)"
  shows "object_payloads (trace (fst (tool_round env mcp_instance st function_call)))"
proof -
  obtain st1 r where ex: "execute_tool env mcp_instance st (fc_name function_call)
                            (fc_args function_call) = (st1, r)"
    by (cases "execute_tool env mcp_instance st (fc_name function_call) (fc_args function_call)")
  from assms execute_tool_object_payloads [of env mcp_instance st "fc_name function_call"
      "fc_args function_call"] ex
  have st1: "object_payloads (trace st1)"
    by simp
  show ?thesis
  proof (cases r)
    case (Inl e)
    with ex st1 show ?thesis
      by (simp add: tool_round_failure error_response_def send_and_read_object_payloads)
  next
    case (Inr tool_response_data)
    show ?thesis
    proof (cases "is_object (wrap_list tool_response_data)")
      case False
      with ex Inr st1 show ?thesis
        by (simp add: tool_round_refused error_response_def send_and_read_object_payloads)
    next
      case True
      let ?msg = "FunctionResponse (fc_name function_call) (wrap_list tool_response_data)"
      obtain st2 r2 where sent: "send_and_read env st1 ?msg = (st2, r2)"
        by (cases "send_and_read env st1 ?msg")
      from send_and_read_object_payloads(1) [of env st1 "fc_name function_call"
          "wrap_list tool_response_data"] sent st1 True
      have st2: "object_payloads (trace st2)"
        by simp
      from ex Inr True sent st2 show ?thesis
        by (cases r2)
           (simp_all add: tool_round_success error_response_def send_and_read_object_payloads)
    qed
  qed
qed

lemma tool_call_loop_object_payloads:
  assumes "tool_call_loop env mcp_instance st response_message = Some y"
  shows "object_payloads (trace st) \<longrightarrow> object_payloads (trace (fst y))"
  using assms
proof (induct rule: tool_call_loop.raw_induct [rotated 1, consumes 1, case_names round])
  case (round loop env mcp_instance st response_message y)
  show ?case
  proof (cases "requested_call response_message")
    case None
    with round.hyps(2) show ?thesis by auto
  next
    case (Some function_call)
    obtain st1 r where step: "tool_round env mcp_instance st function_call = (st1, r)"
      by (cases "tool_round env mcp_instance st function_call")
    from tool_round_object_payloads [of st env mcp_instance function_call] step
    have kept: "object_payloads (trace st) \<longrightarrow> object_payloads (trace st1)"
      by simp
    show ?thesis
    proof (cases r)
      case (Inl e)
      with round.hyps(2) Some step kept show ?thesis by auto
    next
      case (Inr response_message1)
      with round.hyps(2) Some step have "loop env mcp_instance st1 response_message1 = Some y"
        by simp
      from round.hyps(1) [OF this] kept show ?thesis
        by simp
    qed
  qed
qed

lemma generate_response_object_payloads:
  assumes "generate_response_with_gemini env st user_prompt tls mcp_instance = Some (st1, r)"
    and "object_payloads (trace st)"
  shows "object_payloads (trace st1)"
proof -
  obtain st0 r0 where first: "send_and_read env st (UserPrompt user_prompt tls) = (st0, r0)"
    by (cases "send_and_read env st (UserPrompt user_prompt tls)")
  from send_and_read_object_payloads(2) [of env st user_prompt tls] first assms(2)
  have st0: "object_payloads (trace st0)"
    by simp
  show ?thesis
  proof (cases r0)
    case (Inl e)
    with assms(1) first st0 show ?thesis
      by (simp add: generate_response_with_gemini_def turn_body_def)
  next
    case (Inr response_message)
    show ?thesis
    proof (cases "tool_call_loop env mcp_instance st0 response_message")
      case None
      with assms(1) first Inr show ?thesis
        by (simp add: generate_response_with_gemini_def turn_body_def)
    next
      case (Some y)
      from tool_call_loop_object_payloads [OF Some] st0
      have "object_payloads (trace (fst y))"
        by simp
      with assms(1) first Inr Some show ?thesis
        by (cases y, cases "snd y")
           (auto simp: generate_response_with_gemini_def turn_body_def)
    qed
  qed
qed

lemma tool_round_first_send:
  assumes "execute_tool env mcp_instance st (fc_name function_call) (fc_args function_call) =
             (st1, Inr tool_response_data)"
    and "is_object (wrap_list tool_response_data)"
  shows "\<exists>evs. trace (fst (tool_round env mcp_instance st function_call)) =
           trace st1 @
           SendMessage (FunctionResponse (fc_name function_call) (wrap_list tool_response_data))
             (snd (send_message env (world st1)
                (FunctionResponse (fc_name function_call) (wrap_list tool_response_data)))) # evs"
proof -
  let ?msg = "FunctionResponse (fc_name function_call) (wrap_list tool_response_data)"
  obtain st2 r2 where sent: "send_and_read env st1 ?msg = (st2, r2)"
    by (cases "send_and_read env st1 ?msg")
  from trace_send_and_read [of env st1 ?msg] sent
  have tr2: "trace st2 = trace st1 @ [SendMessage ?msg (snd (send_message env (world st1) ?msg))]"
    by simp
  show ?thesis
  proof (cases r2)
    case (Inl e)
    with assms sent tr2
      trace_send_and_read [of env st2 "error_response (fc_name function_call) e"]
    show ?thesis
      by (simp add: tool_round_success)
  next
    case (Inr response_message)
    with assms sent tr2 show ?thesis
      by (simp add: tool_round_success)
  qed
qed

text \<open>
  C2, as the code has it: after a successful execution whose result is a list or an
  object, the next call the driver makes is \<open>send_message\<close> with the tool response
  \<open>{name, response: payload}\<close>, where a list is wrapped as \<open>{results: <list>}\<close> and an object
  is the payload as it is; when the model answers it, the loop goes on with that answer.
  Every tool response the driver sends, in a round and in a whole turn, carries an object.
\<close>

theorem tool_result_sent_to_model:
  "(requested_call response_message = Some function_call
    \<and> execute_tool env mcp_instance st (fc_name function_call) (fc_args function_call) =
        (st1, Inr tool_response_data)
    \<and> ((\<exists>xs. tool_response_data = JList xs) \<or> (\<exists>kvs. tool_response_data = JObj kvs))
    \<longrightarrow> is_object (wrap_list tool_response_data)
      \<and> (\<forall>xs. tool_response_data = JList xs \<longrightarrow>
             wrap_list tool_response_data = JObj [(''results'', JList xs)])
      \<and> (\<forall>kvs. tool_response_data = JObj kvs \<longrightarrow>
             wrap_list tool_response_data = tool_response_data)
      \<and> (\<exists>evs. trace (fst (tool_round env mcp_instance st function_call)) =
             trace st1 @
             SendMessage
               (FunctionResponse (fc_name function_call) (wrap_list tool_response_data))
               (snd (send_message env (world st1)
                  (FunctionResponse (fc_name function_call) (wrap_list tool_response_data))))
             # evs)
      \<and> (\<forall>st2 response_message2.
             send_and_read env st1
               (FunctionResponse (fc_name function_call) (wrap_list tool_response_data)) =
               (st2, Inr response_message2) \<longrightarrow>
             tool_call_loop env mcp_instance st response_message =
               tool_call_loop env mcp_instance st2 response_message2))
   \<and> (object_payloads (trace st) \<longrightarrow>
        object_payloads (trace (fst (tool_round env mcp_instance st function_call))))
   \<and> (\<forall>st0 user_prompt tls st9 r.
         generate_response_with_gemini env st0 user_prompt tls mcp_instance = Some (st9, r)
         \<and> object_payloads (trace st0) \<longrightarrow> object_payloads (trace st9))"
proof -
  have round: "requested_call response_message = Some function_call
    \<and> execute_tool env mcp_instance st (fc_name function_call) (fc_args function_call) =
        (st1, Inr tool_response_data)
    \<and> ((\<exists>xs. tool_response_data = JList xs) \<or> (\<exists>kvs. tool_response_data = JObj kvs))
    \<longrightarrow> is_object (wrap_list tool_response_data)
      \<and> (\<forall>xs. tool_response_data = JList xs \<longrightarrow>
             wrap_list tool_response_data = JObj [(''results'', JList xs)])
      \<and> (\<forall>kvs. tool_response_data = JObj kvs \<longrightarrow>
             wrap_list tool_response_data = tool_response_data)
      \<and> (\<exists>evs. trace (fst (tool_round env mcp_instance st function_call)) =
             trace st1 @
             SendMessage
               (FunctionResponse (fc_name function_call) (wrap_list tool_response_data))
               (snd (send_message env (world st1)
                  (FunctionResponse (fc_name function_call) (wrap_list tool_response_data))))
             # evs)
      \<and> (\<forall>st2 response_message2.
             send_and_read env st1
               (FunctionResponse (fc_name function_call) (wrap_list tool_response_data)) =
               (st2, Inr response_message2) \<longrightarrow>
             tool_call_loop env mcp_instance st response_message =
               tool_call_loop env mcp_instance st2 response_message2)"
  proof (intro impI, elim conjE)
    assume call: "requested_call response_message = Some function_call"
      and ex: "execute_tool env mcp_instance st (fc_name function_call) (fc_args function_call) =
                 (st1, Inr tool_response_data)"
      and shape: "(\<exists>xs. tool_response_data = JList xs) \<or> (\<exists>kvs. tool_response_data = JObj kvs)"
    from shape have object: "is_object (wrap_list tool_response_data)"
      by (auto simp: wrap_list_def)
    have wrapped: "\<forall>xs. tool_response_data = JList xs \<longrightarrow>
             wrap_list tool_response_data = JObj [(''results'', JList xs)]"
      by (simp add: wrap_list_def)
    have unwrapped: "\<forall>kvs. tool_response_data = JObj kvs \<longrightarrow>
             wrap_list tool_response_data = tool_response_data"
      by (simp add: wrap_list_def)
    have goes_on: "\<forall>st2 response_message2.
             send_and_read env st1
               (FunctionResponse (fc_name function_call) (wrap_list tool_response_data)) =
               (st2, Inr response_message2) \<longrightarrow>
             tool_call_loop env mcp_instance st response_message =
               tool_call_loop env mcp_instance st2 response_message2"
      by (simp add: tool_call_loop_round [OF call] tool_round_success [OF ex object])
    from object wrapped unwrapped tool_round_first_send [OF ex object] goes_on
    show "is_object (wrap_list tool_response_data)
      \<and> (\<forall>xs. tool_response_data = JList xs \<longrightarrow>
             wrap_list tool_response_data = JObj [(''results'', JList xs)])
      \<and> (\<forall>kvs. tool_response_data = JObj kvs \<longrightarrow>
             wrap_list tool_response_data = tool_response_data)
      \<and> (\<exists>evs. trace (fst (tool_round env mcp_instance st function_call)) =
             trace st1 @
             SendMessage
               (FunctionResponse (fc_name function_call) (wrap_list tool_response_data))
               (snd (send_message env (world st1)
                  (FunctionResponse (fc_name function_call) (wrap_list tool_response_data))))
             # evs)
      \<and> (\<forall>st2 response_message2.
             send_and_read env st1
               (FunctionResponse (fc_name function_call) (wrap_list tool_response_data)) =
               (st2, Inr response_message2) \<longrightarrow>
             tool_call_loop env mcp_instance st response_message =
               tool_call_loop env mcp_instance st2 response_message2)"
      by (intro conjI)
  qed
  have step: "object_payloads (trace st) \<longrightarrow>
        object_payloads (trace (fst (tool_round env mcp_instance st function_call)))"
    using tool_round_object_payloads by blast
  have turn: "\<forall>st0 user_prompt tls st9 r.
         generate_response_with_gemini env st0 user_prompt tls mcp_instance = Some (st9, r)
         \<and> object_payloads (trace st0) \<longrightarrow> object_payloads (trace st9)"
    using generate_response_object_payloads by blast
  from round step turn show ?thesis
    by (intro conjI)
qed

theorem tool_result_sent_to_model_witness:
  "requested_call (Content [Part (Some (FunctionCall ''search_products_tool''
                                           [(''searchTerm'', JStr ''accessories'')])) []]) =
     Some (FunctionCall ''search_products_tool'' [(''searchTerm'', JStr ''accessories'')])
   \<and> execute_tool (scripted (JList [JObj [(''id'', JNum 1), (''name'', JStr ''Belt'')]])) None
       \<lparr>world = [text_reply ''I found a Belt.''],
        trace = [SendMessage (UserPrompt ''Show me accessories'' tools)
                   (Inr (tool_request ''search_products_tool''
                           [(''searchTerm'', JStr ''accessories'')]))]\<rparr>
       ''search_products_tool'' [(''searchTerm'', JStr ''accessories'')] =
     (\<lparr>world = [text_reply ''I found a Belt.''],
       trace = [SendMessage (UserPrompt ''Show me accessories'' tools)
                  (Inr (tool_request ''search_products_tool''
                          [(''searchTerm'', JStr ''accessories'')])),
                HttpGet ''http://localhost:8001/products/search''
                  (Some [(''searchTerm'', JStr ''accessories'')])
                  (Inr (ok_response (JList [JObj [(''id'', JNum 1), (''name'', JStr ''Belt'')]])))]\<rparr>,
      Inr (JList [JObj [(''id'', JNum 1), (''name'', JStr ''Belt'')]]))
   \<and> tool_call_loop (scripted (JList [JObj [(''id'', JNum 1), (''name'', JStr ''Belt'')]])) None
       \<lparr>world = [text_reply ''I found a Belt.''],
        trace = [SendMessage (UserPrompt ''Show me accessories'' tools)
                   (Inr (tool_request ''search_products_tool''
                           [(''searchTerm'', JStr ''accessories'')]))]\<rparr>
       (Content [Part (Some (FunctionCall ''search_products_tool''
                               [(''searchTerm'', JStr ''accessories'')])) []]) =
     Some (\<lparr>world = [],
            trace = [SendMessage (UserPrompt ''Show me accessories'' tools)
                       (Inr (tool_request ''search_products_tool''
                               [(''searchTerm'', JStr ''accessories'')])),
                     HttpGet ''http://localhost:8001/products/search''
                       (Some [(''searchTerm'', JStr ''accessories'')])
                       (Inr (ok_response
                               (JList [JObj [(''id'', JNum 1), (''name'', JStr ''Belt'')]]))),
                     SendMessage
                       (FunctionResponse ''search_products_tool''
                          (JObj [(''results'',
                                  JList [JObj [(''id'', JNum 1), (''name'', JStr ''Belt'')]])]))
                       (Inr (text_reply ''I found a Belt.''))]\<rparr>,
           Inr (Content [Part None ''I found a Belt.'']))
   \<and> generate_response_with_gemini
       (scripted (JList [JObj [(''id'', JNum 1), (''name'', JStr ''Belt'')]]))
       (start [tool_request ''search_products_tool'' [(''searchTerm'', JStr ''accessories'')],
               text_reply ''I found a Belt.''])
       ''Show me accessories'' tools None =
     Some (\<lparr>world = [],
            trace = [SendMessage (UserPrompt ''Show me accessories'' tools)
                       (Inr (tool_request ''search_products_tool''
                               [(''searchTerm'', JStr ''accessories'')])),
                     HttpGet ''http://localhost:8001/products/search''
                       (Some [(''searchTerm'', JStr ''accessories'')])
                       (Inr (ok_response
                               (JList [JObj [(''id'', JNum 1), (''name'', JStr ''Belt'')]]))),
                     SendMessage
                       (FunctionResponse ''search_products_tool''
                          (JObj [(''results'',
                                  JList [JObj [(''id'', JNum 1), (''name'', JStr ''Belt'')]])]))
                       (Inr (text_reply ''I found a Belt.''))]\<rparr>,
           Inr ''I found a Belt.'')
   \<and> generate_response_with_gemini
       (scripted (JObj [(''message'', JStr ''No hotels''), (''count'', JNum 0),
                        (''hotels'', JList [])]))
       (start [tool_request ''search_hotels_tool'' [(''location'', JStr ''Hyderabad'')],
               text_reply ''I found no hotels.''])
       ''Hotels in Hyderabad'' tools None =
     Some (\<lparr>world = [],
            trace = [SendMessage (UserPrompt ''Hotels in Hyderabad'' tools)
                       (Inr (tool_request ''search_hotels_tool''
                               [(''location'', JStr ''Hyderabad'')])),
                     HttpGet ''http://localhost:8001/hotels/search''
                       (Some [(''location'', JStr ''Hyderabad'')])
                       (Inr (ok_response
                               (JObj [(''message'', JStr ''No hotels''), (''count'', JNum 0),
                                      (''hotels'', JList [])]))),
                     SendMessage
                       (FunctionResponse ''search_hotels_tool''
                          (JObj [(''message'', JStr ''No hotels''), (''count'', JNum 0),
                                 (''hotels'', JList [])]))
                       (Inr (text_reply ''I found no hotels.''))]\<rparr>,
           Inr ''I found no hotels.'')
   \<and> object_payloads
       [SendMessage (UserPrompt ''Hotels in Hyderabad'' tools)
          (Inr (tool_request ''search_hotels_tool'' [(''location'', JStr ''Hyderabad'')])),
        HttpGet ''http://localhost:8001/hotels/search''
          (Some [(''location'', JStr ''Hyderabad'')])
          (Inr (ok_response
                  (JObj [(''message'', JStr ''No hotels''), (''count'', JNum 0),
                         (''hotels'', JList [])]))),
        SendMessage
          (FunctionResponse ''search_hotels_tool''
             (JObj [(''message'', JStr ''No hotels''), (''count'', JNum 0),
                    (''hotels'', JList [])]))
          (Inr (text_reply ''I found no hotels.''))]"
proof -
  let ?body = "JList [JObj [(''id'', JNum 1), (''name'', JStr ''Belt'')]]"
  let ?hotels = "JObj [(''message'', JStr ''No hotels''), (''count'', JNum 0),
                       (''hotels'', JList [])]"
  let ?fc = "FunctionCall ''search_products_tool'' [(''searchTerm'', JStr ''accessories'')]"
  let ?first = "SendMessage (UserPrompt ''Show me accessories'' tools)
                  (Inr (tool_request ''search_products_tool''
                          [(''searchTerm'', JStr ''accessories'')]))"
  let ?get = "HttpGet ''http://localhost:8001/products/search''
                (Some [(''searchTerm'', JStr ''accessories'')]) (Inr (ok_response ?body))"
  let ?st = "\<lparr>world = [text_reply ''I found a Belt.''], trace = [?first]\<rparr>"
  let ?st1 = "\<lparr>world = [text_reply ''I found a Belt.''], trace = [?first, ?get]\<rparr>"
  let ?msg = "FunctionResponse ''search_products_tool'' (JObj [(''results'', ?body)])"
  let ?st2 = "\<lparr>world = [] :: response list,
               trace = [?first, ?get, SendMessage ?msg (Inr (text_reply ''I found a Belt.''))]\<rparr>"
  have call: "requested_call (Content [Part (Some ?fc) []]) = Some ?fc"
    by (simp add: requested_call_def)
  have ex: "execute_tool (scripted ?body) None ?st (fc_name ?fc) (fc_args ?fc) =
              (?st1, Inr ?body)"
    by (simp add: execute_tool_def execute_local_tool_def local_request_def
          http_client_get_def base_url_def example_eval)
  have sent: "send_and_read (scripted ?body) ?st1 ?msg =
                (?st2, Inr (Content [Part None ''I found a Belt.'']))"
    by (simp add: send_and_read_def chat_send_message_def example_eval)
  note round = tool_result_sent_to_model [of "Content [Part (Some ?fc) []]" ?fc
      "scripted ?body" None ?st ?st1 ?body]
  have loop: "tool_call_loop (scripted ?body) None ?st (Content [Part (Some ?fc) []]) =
                tool_call_loop (scripted ?body) None ?st2 (Content [Part None ''I found a Belt.''])"
    using round call ex sent by (simp add: wrap_list_def)
  have belt: "generate_response_with_gemini (scripted ?body)
       (start [tool_request ''search_products_tool'' [(''searchTerm'', JStr ''accessories'')],
               text_reply ''I found a Belt.''])
       ''Show me accessories'' tools None = Some (?st2, Inr ''I found a Belt.'')"
    by (simp add: driver_eval example_eval)
  have hotel: "generate_response_with_gemini (scripted ?hotels)
       (start [tool_request ''search_hotels_tool'' [(''location'', JStr ''Hyderabad'')],
               text_reply ''I found no hotels.''])
       ''Hotels in Hyderabad'' tools None =
     Some (\<lparr>world = [],
            trace = [SendMessage (UserPrompt ''Hotels in Hyderabad'' tools)
                       (Inr (tool_request ''search_hotels_tool''
                               [(''location'', JStr ''Hyderabad'')])),
                     HttpGet ''http://localhost:8001/hotels/search''
                       (Some [(''location'', JStr ''Hyderabad'')])
                       (Inr (ok_response ?hotels)),
                     SendMessage (FunctionResponse ''search_hotels_tool'' ?hotels)
                       (Inr (text_reply ''I found no hotels.''))]\<rparr>,
           Inr ''I found no hotels.'')"
    by (simp add: driver_eval example_eval)
  note turn = tool_result_sent_to_model [of _ _ "scripted ?hotels" None]
  have empty: "object_payloads (trace (start [tool_request ''search_hotels_tool''
                   [(''location'', JStr ''Hyderabad'')], text_reply ''I found no hotels.'']))"
    by (simp add: start_def object_payloads_def)
  have objects: "object_payloads
       [SendMessage (UserPrompt ''Hotels in Hyderabad'' tools)
          (Inr (tool_request ''search_hotels_tool'' [(''location'', JStr ''Hyderabad'')])),
        HttpGet ''http://localhost:8001/hotels/search''
          (Some [(''location'', JStr ''Hyderabad'')]) (Inr (ok_response ?hotels)),
        SendMessage (FunctionResponse ''search_hotels_tool'' ?hotels)
          (Inr (text_reply ''I found no hotels.''))]"
    using turn hotel empty by fastforce
  have ex': "execute_tool (scripted ?body) None ?st ''search_products_tool''
               [(''searchTerm'', JStr ''accessories'')] = (?st1, Inr ?body)"
    using ex by simp
  have loop': "tool_call_loop (scripted ?body) None ?st (Content [Part (Some ?fc) []]) =
                 Some (?st2, Inr (Content [Part None ''I found a Belt.'']))"
    using loop by (simp add: tool_call_loop_no_call)
  from call ex' loop' belt hotel objects show ?thesis
    by (intro conjI)
qed

theorem scalar_tool_result_counterexample:
  "generate_response_with_gemini (scripted (JStr ''ok''))
     (start [tool_request ''get_products_tool'' [], text_reply ''Done.''])
     ''List the products'' tools None =
   Some (\<lparr>world = [],
          trace = [SendMessage (UserPrompt ''List the products'' tools)
                     (Inr (tool_request ''get_products_tool'' [])),
                   HttpGet ''http://localhost:8001/products'' None
                     (Inr (ok_response (JStr ''ok''))),
                   SendMessage
                     (FunctionResponse ''get_products_tool''
                        (JObj [(''error'',
                                JStr ''Failed to execute tool: response is not a mapping'')]))
                     (Inr (text_reply ''Done.''))]\<rparr>,
         Inr ''Done.'')"
  by (simp add: driver_eval example_eval)


lemma last_reply_snoc: "last_reply (tr @ [e]) = reply_of e"
  by (simp add: last_reply_def)

lemma send_and_read_reply:
  "send_and_read env st msg = (st1, Inr response_message) \<Longrightarrow>
   last_reply (trace st1) = Some response_message"
  by (auto simp: send_and_read_def chat_send_message_def last_reply_snoc
           split: prod.splits sum.splits list.splits)

lemma tool_round_reply:
  "tool_round env mcp_instance st function_call = (st1, Inr response_message) \<Longrightarrow>
   last_reply (trace st1) = Some response_message"
  by (auto simp: tool_round_def tool_try_def function_response_def Let_def
           dest: send_and_read_reply split: prod.splits sum.splits if_splits)

lemma tool_call_loop_final_aux:
  assumes "tool_call_loop env mcp_instance st response_message = Some y"
  shows "\<forall>st1 final. y = (st1, Inr final) \<longrightarrow>
     requested_call final = None \<and>
     (last_reply (trace st) = Some response_message \<longrightarrow> last_reply (trace st1) = Some final)"
  using assms
proof (induct rule: tool_call_loop.raw_induct [rotated 1, consumes 1, case_names round])
  case (round loop env mcp_instance st response_message y)
  show ?case
  proof (cases "requested_call response_message")
    case None
    with round.hyps(2) show ?thesis by auto
  next
    case (Some function_call)
    obtain st2 r where round: "tool_round env mcp_instance st function_call = (st2, r)"
      by (cases "tool_round env mcp_instance st function_call")
    show ?thesis
    proof (cases r)
      case (Inl e)
      with round.hyps(2) Some round show ?thesis by auto
    next
      case (Inr response_message1)
      with round.hyps(2) Some round have "loop env mcp_instance st2 response_message1 = Some y"
        by simp
      from round.hyps(1) [OF this] tool_round_reply [of env mcp_instance st function_call st2 response_message1]
        round Inr
      show ?thesis by simp
    qed
  qed
qed

lemma tool_call_loop_final:
  "tool_call_loop env mcp_instance st response_message = Some (st1, Inr final) \<Longrightarrow>
   requested_call final = None \<and>
   (last_reply (trace st) = Some response_message \<longrightarrow> last_reply (trace st1) = Some final)"
  using tool_call_loop_final_aux [of env mcp_instance st response_message "(st1, Inr final)"]
  by simp

lemma send_and_read_keeps_requesting:
  "keeps_requesting_tools env \<Longrightarrow>
   \<exists>st1 c. send_and_read env st msg = (st1, Inr c) \<and> requested_call c \<noteq> None"
proof -
  assume "keeps_requesting_tools env"
  then obtain w1 c cs where
    "send_message env (world st) msg = (w1, Inr (Response (c # cs)))" "requested_call c \<noteq> None"
    unfolding keeps_requesting_tools_def by blast
  then show ?thesis
    by (simp add: send_and_read_def chat_send_message_def)
qed

lemma tool_round_keeps_requesting:
  assumes "keeps_requesting_tools env"
  shows "\<exists>st1 c. tool_round env mcp_instance st function_call = (st1, Inr c)
                 \<and> requested_call c \<noteq> None"
proof -
  obtain st1 r where ex: "execute_tool env mcp_instance st (fc_name function_call)
                            (fc_args function_call) = (st1, r)"
    by (cases "execute_tool env mcp_instance st (fc_name function_call) (fc_args function_call)")
  show ?thesis
  proof (cases r)
    case (Inl e)
    with ex send_and_read_keeps_requesting [OF assms, of st1 "error_response (fc_name function_call) e"]
    show ?thesis by (simp add: tool_round_failure)
  next
    case (Inr tool_response_data)
    show ?thesis
    proof (cases "is_object (wrap_list tool_response_data)")
      case True
      with ex Inr send_and_read_keeps_requesting [OF assms, of st1
          "FunctionResponse (fc_name function_call) (wrap_list tool_response_data)"]
      show ?thesis by (auto simp: tool_round_success)
    next
      case False
      with ex Inr send_and_read_keeps_requesting [OF assms, of st1
          "error_response (fc_name function_call) (refuse env (wrap_list tool_response_data))"]
      show ?thesis by (simp add: tool_round_refused)
    qed
  qed
qed

lemma tool_call_loop_never_ends_aux:
  assumes "tool_call_loop env mcp_instance st response_message = Some y"
  shows "keeps_requesting_tools env \<longrightarrow> requested_call response_message = None"
  using assms
proof (induct rule: tool_call_loop.raw_induct [rotated 1, consumes 1, case_names round])
  case (round loop env mcp_instance st response_message y)
  show ?case
  proof
    assume keeps: "keeps_requesting_tools env"
    show "requested_call response_message = None"
    proof (rule ccontr)
      assume "requested_call response_message \<noteq> None"
      then obtain function_call where call: "requested_call response_message = Some function_call"
        by blast
      from tool_round_keeps_requesting [OF keeps, of mcp_instance st function_call]
      obtain st1 c where round: "tool_round env mcp_instance st function_call = (st1, Inr c)"
        and again: "requested_call c \<noteq> None"
        by blast
      from round.hyps(2) call round have "loop env mcp_instance st1 c = Some y"
        by simp
      from round.hyps(1) [OF this] keeps again show False
        by simp
    qed
  qed
qed

lemma tool_call_loop_never_ends:
  assumes "keeps_requesting_tools env" and "requested_call response_message \<noteq> None"
  shows "tool_call_loop env mcp_instance st response_message = None"
proof (cases "tool_call_loop env mcp_instance st response_message")
  case None
  then show ?thesis .
next
  case (Some y)
  from tool_call_loop_never_ends_aux [OF this] assms show ?thesis
    by simp
qed

lemma generate_response_never_returns:
  assumes "keeps_requesting_tools env"
  shows "generate_response_with_gemini env st user_prompt tls mcp_instance = None"
proof -
  from send_and_read_keeps_requesting [OF assms, of st "UserPrompt user_prompt tls"]
  obtain st1 c where "send_and_read env st (UserPrompt user_prompt tls) = (st1, Inr c)"
    and "requested_call c \<noteq> None"
    by blast
  then show ?thesis
    by (simp add: generate_response_with_gemini_def turn_body_def
          tool_call_loop_never_ends [OF assms])
qed

lemma keeps_requesting_tools_insistent: "keeps_requesting_tools insistent"
  by (simp add: keeps_requesting_tools_def insistent_def tool_request_def requested_call_def)


lemma ok_response_sel:
  "raise_for_status (ok_response body) = None"
  "response_json (ok_response body) = Inr body"
  by (simp_all add: ok_response_def)

lemma scripted_round:
  "tool_round (scripted (JList [])) None \<lparr>world = r # rs, trace = tr\<rparr>
     (FunctionCall ''get_products_tool'' []) =
   (case candidates r of
      [] \<Rightarrow> send_and_read (scripted (JList []))
              \<lparr>world = rs,
               trace = tr @ [HttpGet ''http://localhost:8001/products'' None
                               (Inr (ok_response (JList []))),
                             SendMessage (FunctionResponse ''get_products_tool''
                                            (JObj [(''results'', JList [])])) (Inr r)]\<rparr>
              (error_response ''get_products_tool'' (IndexError ''list index out of range''))
    | c # cs \<Rightarrow>
        (\<lparr>world = rs,
          trace = tr @ [HttpGet ''http://localhost:8001/products'' None
                          (Inr (ok_response (JList []))),
                        SendMessage (FunctionResponse ''get_products_tool''
                                       (JObj [(''results'', JList [])])) (Inr r)]\<rparr>,
         Inr c))"
  by (simp add: tool_round_def tool_try_def function_response_def error_response_def
        execute_tool_def execute_local_tool_def
        local_request_def http_client_get_def send_and_read_def chat_send_message_def
        wrap_list_def base_url_def scripted_def ok_response_sel Let_def split: list.splits)

lemma scripted_loop:
  "\<exists>tr. tool_call_loop (scripted (JList [])) None \<lparr>world = products_script n, trace = tr0\<rparr>
           (Content [Part (Some (FunctionCall ''get_products_tool'' [])) []]) =
         Some (\<lparr>world = [], trace = tr0 @ tr\<rparr>, Inr (Content [Part None ''Done.'']))
       \<and> length (filter is_tool_response tr) = Suc n
       \<and> length (filter is_http_get tr) = Suc n"
proof (induction n arbitrary: tr0)
  case 0
  show ?case
    by (simp add: products_script_def tool_call_loop_call scripted_round text_reply_def
          tool_call_loop_no_call)
next
  case (Suc n)
  let ?round = "[HttpGet ''http://localhost:8001/products'' None (Inr (ok_response (JList []))),
                 SendMessage (FunctionResponse ''get_products_tool''
                                (JObj [(''results'', JList [])]))
                   (Inr (tool_request ''get_products_tool'' []))]"
  from Suc.IH [of "tr0 @ ?round"] obtain tr where
    run: "tool_call_loop (scripted (JList [])) None
            \<lparr>world = products_script n, trace = (tr0 @ ?round)\<rparr>
            (Content [Part (Some (FunctionCall ''get_products_tool'' [])) []]) =
          Some (\<lparr>world = [], trace = (tr0 @ ?round) @ tr\<rparr>, Inr (Content [Part None ''Done.'']))"
    and count: "length (filter is_tool_response tr) = Suc n"
               "length (filter is_http_get tr) = Suc n"
    by blast
  have script: "products_script (Suc n) = tool_request ''get_products_tool'' [] # products_script n"
    by (simp add: products_script_def)
  have "tool_call_loop (scripted (JList [])) None \<lparr>world = products_script (Suc n), trace = tr0\<rparr>
           (Content [Part (Some (FunctionCall ''get_products_tool'' [])) []]) =
        Some (\<lparr>world = [], trace = tr0 @ (?round @ tr)\<rparr>, Inr (Content [Part None ''Done.'']))"
    using run by (simp add: script tool_call_loop_call scripted_round tool_request_def)
  moreover have "length (filter is_tool_response (?round @ tr)) = Suc (Suc n)"
    "length (filter is_http_get (?round @ tr)) = Suc (Suc n)"
    using count by simp_all
  ultimately show ?case by blast
qed

lemma scripted_turn:
  "\<exists>st1. generate_response_with_gemini (scripted (JList [])) (start (products_script n))
            user_prompt tls None = Some (st1, Inr ''Done.'')
        \<and> length (filter is_tool_response (trace st1)) = n
        \<and> length (filter is_http_get (trace st1)) = n"
proof (cases n)
  case 0
  then show ?thesis
    by (simp add: generate_response_with_gemini_def turn_body_def send_and_read_def
          chat_send_message_def products_script_def start_def scripted_def text_reply_def
          tool_call_loop_no_call final_text_def)
next
  case (Suc k)
  let ?first = "[SendMessage (UserPrompt user_prompt tls) (Inr (tool_request ''get_products_tool'' []))]"
  from scripted_loop [of k ?first] obtain tr where
    run: "tool_call_loop (scripted (JList [])) None \<lparr>world = products_script k, trace = ?first\<rparr>
           (Content [Part (Some (FunctionCall ''get_products_tool'' [])) []]) =
         Some (\<lparr>world = [], trace = ?first @ tr\<rparr>, Inr (Content [Part None ''Done.'']))"
    and count: "length (filter is_tool_response tr) = Suc k" "length (filter is_http_get tr) = Suc k"
    by blast
  have script: "products_script (Suc k) = tool_request ''get_products_tool'' [] # products_script k"
    by (simp add: products_script_def)
  have "generate_response_with_gemini (scripted (JList [])) (start (products_script n))
            user_prompt tls None = Some (\<lparr>world = [], trace = ?first @ tr\<rparr>, Inr ''Done.'')"
    using run
    by (simp add: Suc script generate_response_with_gemini_def turn_body_def send_and_read_def
          chat_send_message_def start_def scripted_def tool_request_def final_text_def)
  then show ?thesis
    using count Suc by simp
qed

lemma turn_body_final:
  assumes "turn_body env st user_prompt tls mcp_instance = Some (st1, Inr txt)"
  shows "\<exists>final. last_reply (trace st1) = Some final \<and> requested_call final = None
                \<and> txt = final_text final"
proof -
  obtain st0 r0 where first: "send_and_read env st (UserPrompt user_prompt tls) = (st0, r0)"
    by (cases "send_and_read env st (UserPrompt user_prompt tls)")
  from assms first obtain response_message where r0: "r0 = Inr response_message"
    by (cases r0) (simp_all add: turn_body_def)
  from assms first r0 obtain final where
    loop: "tool_call_loop env mcp_instance st0 response_message = Some (st1, Inr final)"
    and answer: "txt = final_text final"
    by (auto simp: turn_body_def split: option.splits sum.splits)
  from send_and_read_reply first r0 have "last_reply (trace st0) = Some response_message"
    by blast
  with tool_call_loop_final [OF loop] answer show ?thesis
    by blast
qed

lemma generate_response_final:
  assumes "generate_response_with_gemini env st user_prompt tls mcp_instance = Some (st1, r)"
  shows "r = Inr apology_text \<or>
         (\<exists>final. last_reply (trace st1) = Some final \<and> requested_call final = None
                  \<and> r = Inr (final_text final))"
proof (cases "turn_body env st user_prompt tls mcp_instance")
  case None
  with assms show ?thesis by (simp add: generate_response_with_gemini_def)
next
  case (Some y)
  obtain st2 r2 where y: "y = (st2, r2)" by (cases y)
  show ?thesis
  proof (cases r2)
    case (Inl e)
    with assms Some y show ?thesis by (simp add: generate_response_with_gemini_def)
  next
    case (Inr answer)
    with assms Some y have "st2 = st1" "r = Inr answer"
      by (simp_all add: generate_response_with_gemini_def)
    with turn_body_final [of env st user_prompt tls mcp_instance st1 answer] Some y Inr
    show ?thesis by auto
  qed
qed


text \<open>
  C6, as the code has it: the loop has no iteration cap.  For every \<open>n\<close> there is a
  sequence of model replies (\<open>n\<close> requests for a tool, then a text) on which the driver
  makes \<open>n\<close> tool round trips and returns.  The loop is left in the normal way only by a
  reply whose first part is not a tool request; the driver returns either the answer drawn
  from such a reply, the last one the model gave, or the apology of the outer handler
  after an exception.  Against a model that answers every message with a tool request the
  driver never returns.
\<close>

theorem tool_loop_has_no_cap:
  "(\<forall>n. \<exists>st1. generate_response_with_gemini (scripted (JList [])) (start (products_script n))
                  user_prompt tls None = Some (st1, Inr ''Done.'')
              \<and> length (filter is_tool_response (trace st1)) = n
              \<and> length (filter is_http_get (trace st1)) = n)
   \<and> (\<forall>st0 response_message st1 final.
         tool_call_loop env mcp_instance st0 response_message = Some (st1, Inr final)
         \<longrightarrow> requested_call final = None)
   \<and> (\<forall>st1 r. generate_response_with_gemini env st user_prompt tls mcp_instance = Some (st1, r)
         \<longrightarrow> r = Inr apology_text
             \<or> (\<exists>final. last_reply (trace st1) = Some final \<and> requested_call final = None
                      \<and> r = Inr (final_text final)))
   \<and> (keeps_requesting_tools env
         \<longrightarrow> generate_response_with_gemini env st user_prompt tls mcp_instance = None)"
proof -
  have rounds: "\<forall>n. \<exists>st1. generate_response_with_gemini (scripted (JList []))
                  (start (products_script n)) user_prompt tls None = Some (st1, Inr ''Done.'')
              \<and> length (filter is_tool_response (trace st1)) = n
              \<and> length (filter is_http_get (trace st1)) = n"
    using scripted_turn by blast
  have leaves: "\<forall>st0 response_message st1 final.
         tool_call_loop env mcp_instance st0 response_message = Some (st1, Inr final)
         \<longrightarrow> requested_call final = None"
    using tool_call_loop_final by blast
  have returns: "\<forall>st1 r. generate_response_with_gemini env st user_prompt tls mcp_instance =
                    Some (st1, r)
         \<longrightarrow> r = Inr apology_text
             \<or> (\<exists>final. last_reply (trace st1) = Some final \<and> requested_call final = None
                      \<and> r = Inr (final_text final))"
    using generate_response_final by blast
  have stalls: "keeps_requesting_tools env
         \<longrightarrow> generate_response_with_gemini env st user_prompt tls mcp_instance = None"
    using generate_response_never_returns by blast
  from rounds leaves returns stalls show ?thesis
    by (intro conjI)
qed

theorem tool_loop_has_no_cap_witness:
  "keeps_requesting_tools insistent
   \<and> generate_response_with_gemini insistent \<lparr>world = (), trace = []\<rparr>
       ''List the products'' tools None = None
   \<and> tool_call_loop (scripted (JList [])) None (start [text_reply ''Done.''])
       (Content [Part (Some (FunctionCall ''get_products_tool'' [])) []]) =
     Some (\<lparr>world = [],
            trace = [HttpGet ''http://localhost:8001/products'' None
                       (Inr (ok_response (JList []))),
                     SendMessage (FunctionResponse ''get_products_tool''
                                    (JObj [(''results'', JList [])]))
                       (Inr (text_reply ''Done.''))]\<rparr>,
           Inr (Content [Part None ''Done.'']))
   \<and> requested_call (Content [Part None ''Done.'']) = None
   \<and> generate_response_with_gemini (scripted (JList [])) (start (products_script 2))
       ''List the products'' tools None =
     Some (\<lparr>world = [],
            trace = [SendMessage (UserPrompt ''List the products'' tools)
                       (Inr (tool_request ''get_products_tool'' [])),
                     HttpGet ''http://localhost:8001/products'' None
                       (Inr (ok_response (JList []))),
                     SendMessage (FunctionResponse ''get_products_tool''
                                    (JObj [(''results'', JList [])]))
                       (Inr (tool_request ''get_products_tool'' [])),
                     HttpGet ''http://localhost:8001/products'' None
                       (Inr (ok_response (JList []))),
                     SendMessage (FunctionResponse ''get_products_tool''
                                    (JObj [(''results'', JList [])]))
                       (Inr (text_reply ''Done.''))]\<rparr>,
           Inr ''Done.'')"
proof -
  have keeps: "keeps_requesting_tools insistent"
    by (rule keeps_requesting_tools_insistent)
  note cap = tool_loop_has_no_cap [of _ _ insistent _ "\<lparr>world = (), trace = []\<rparr>"]
  have stalls: "generate_response_with_gemini insistent \<lparr>world = (), trace = []\<rparr>
       ''List the products'' tools None = None"
    using keeps cap [of "''List the products''" tools None] by blast
  have loop: "tool_call_loop (scripted (JList [])) None (start [text_reply ''Done.''])
       (Content [Part (Some (FunctionCall ''get_products_tool'' [])) []]) =
     Some (\<lparr>world = [],
            trace = [HttpGet ''http://localhost:8001/products'' None
                       (Inr (ok_response (JList []))),
                     SendMessage (FunctionResponse ''get_products_tool''
                                    (JObj [(''results'', JList [])]))
                       (Inr (text_reply ''Done.''))]\<rparr>,
           Inr (Content [Part None ''Done.'']))"
    by (simp add: driver_eval example_eval)
  have two: "generate_response_with_gemini (scripted (JList [])) (start (products_script 2))
       ''List the products'' tools None =
     Some (\<lparr>world = [],
            trace = [SendMessage (UserPrompt ''List the products'' tools)
                       (Inr (tool_request ''get_products_tool'' [])),
                     HttpGet ''http://localhost:8001/products'' None
                       (Inr (ok_response (JList []))),
                     SendMessage (FunctionResponse ''get_products_tool''
                                    (JObj [(''results'', JList [])]))
                       (Inr (tool_request ''get_products_tool'' [])),
                     HttpGet ''http://localhost:8001/products'' None
                       (Inr (ok_response (JList []))),
                     SendMessage (FunctionResponse ''get_products_tool''
                                    (JObj [(''results'', JList [])]))
                       (Inr (text_reply ''Done.''))]\<rparr>,
           Inr ''Done.'')"
    by (simp add: driver_eval example_eval products_script_def numeral_2_eq_2)
  have exit: "requested_call (Content [Part None ''Done.'']) = None"
    by (simp add: requested_call_def)
  from keeps stalls loop exit two show ?thesis
    by (intro conjI)
qed

theorem turn_ends_without_final_reply_counterexample:
  "generate_response_with_gemini (scripted (JList []))
     (start [tool_request ''get_products_tool'' []]) ''List the products'' tools None =
   Some (\<lparr>world = [],
          trace = [SendMessage (UserPrompt ''List the products'' tools)
                     (Inr (tool_request ''get_products_tool'' [])),
                   HttpGet ''http://localhost:8001/products'' None
                     (Inr (ok_response (JList []))),
                   SendMessage (FunctionResponse ''get_products_tool''
                                  (JObj [(''results'', JList [])]))
                     (Inl (OtherException ''no reply'')),
                   SendMessage (FunctionResponse ''get_products_tool''
                                  (JObj [(''error'', JStr ''Failed to execute tool: no reply'')]))
                     (Inl (OtherException ''no reply''))]\<rparr>,
         Inr apology_text)
   \<and> requested_call (Content [Part (Some (FunctionCall ''get_products_tool'' [])) []]) =
     Some (FunctionCall ''get_products_tool'' [])"
  by (simp add: driver_eval example_eval requested_call_def)


text \<open>
  C3, as the code has it: when the loop is left with the model's final reply, the driver
  looks at the first part of that reply only.  If the first part has text, the driver
  returns exactly that text; if the reply has no parts, or its first part has no text (it
  has no tool call either, or the loop would have gone on), the driver returns the fixed
  fallback sentence.  Text in a later part is not looked at.
\<close>

theorem final_answer_from_first_part:
  assumes "send_and_read env st (UserPrompt user_prompt tls) = (st1, Inr response_message)"
    and "tool_call_loop env mcp_instance st1 response_message = Some (st2, Inr final)"
  shows "generate_response_with_gemini env st user_prompt tls mcp_instance =
           Some (st2, Inr (final_text final))
       \<and> last_reply (trace st2) = Some final
       \<and> requested_call final = None
       \<and> (\<forall>p ps. parts final = p # ps \<and> part_text p \<noteq> [] \<longrightarrow> final_text final = part_text p)
       \<and> (\<forall>p ps. parts final = p # ps \<and> part_text p = [] \<longrightarrow>
             part_function_call p = None \<and> final_text final = fallback_text)
       \<and> (parts final = [] \<longrightarrow> final_text final = fallback_text)
       \<and> fallback_text =
           ''I have processed your request. Is there anything else I can help with?''"
proof -
  have result: "generate_response_with_gemini env st user_prompt tls mcp_instance =
                  Some (st2, Inr (final_text final))"
    using assms by (simp add: generate_response_with_gemini_def turn_body_def)
  have "last_reply (trace st1) = Some response_message"
    using assms(1) by (rule send_and_read_reply)
  with tool_call_loop_final [OF assms(2)]
  have last: "last_reply (trace st2) = Some final" and none: "requested_call final = None"
    by simp_all
  have first: "\<forall>p ps. parts final = p # ps \<and> part_text p \<noteq> [] \<longrightarrow>
                 final_text final = part_text p"
    by (simp add: final_text_def)
  have no_text: "\<forall>p ps. parts final = p # ps \<and> part_text p = [] \<longrightarrow>
             part_function_call p = None \<and> final_text final = fallback_text"
    using none by (auto simp: final_text_def requested_call_def)
  have no_parts: "parts final = [] \<longrightarrow> final_text final = fallback_text"
    by (simp add: final_text_def)
  from result last none first no_text no_parts show ?thesis
    by (simp only: fallback_text_def simp_thms)
qed

theorem final_answer_from_first_part_witness:
  "send_and_read (scripted (JList [])) (start [text_reply ''We sell belts.''])
     (UserPrompt ''What do you sell?'' tools) =
   (\<lparr>world = [],
     trace = [SendMessage (UserPrompt ''What do you sell?'' tools)
                (Inr (text_reply ''We sell belts.''))]\<rparr>,
    Inr (Content [Part None ''We sell belts.'']))
   \<and> generate_response_with_gemini (scripted (JList [])) (start [text_reply ''We sell belts.''])
       ''What do you sell?'' tools None =
     Some (\<lparr>world = [],
            trace = [SendMessage (UserPrompt ''What do you sell?'' tools)
                       (Inr (text_reply ''We sell belts.''))]\<rparr>,
           Inr ''We sell belts.'')
   \<and> send_and_read (scripted (JList [])) (start [Response [Content []]])
       (UserPrompt ''What do you sell?'' tools) =
     (\<lparr>world = [],
       trace = [SendMessage (UserPrompt ''What do you sell?'' tools)
                  (Inr (Response [Content []]))]\<rparr>,
      Inr (Content []))
   \<and> generate_response_with_gemini (scripted (JList [])) (start [Response [Content []]])
       ''What do you sell?'' tools None =
     Some (\<lparr>world = [],
            trace = [SendMessage (UserPrompt ''What do you sell?'' tools)
                       (Inr (Response [Content []]))]\<rparr>,
           Inr ''I have processed your request. Is there anything else I can help with?'')"
proof -
  let ?st1 = "\<lparr>world = [] :: response list,
               trace = [SendMessage (UserPrompt ''What do you sell?'' tools)
                          (Inr (text_reply ''We sell belts.''))]\<rparr>"
  let ?st2 = "\<lparr>world = [] :: response list,
               trace = [SendMessage (UserPrompt ''What do you sell?'' tools)
                          (Inr (Response [Content []]))]\<rparr>"
  have s1: "send_and_read (scripted (JList [])) (start [text_reply ''We sell belts.''])
              (UserPrompt ''What do you sell?'' tools) =
            (?st1, Inr (Content [Part None ''We sell belts.'']))"
    by (simp add: send_and_read_def chat_send_message_def example_eval)
  have l1: "tool_call_loop (scripted (JList [])) None ?st1 (Content [Part None ''We sell belts.'']) =
            Some (?st1, Inr (Content [Part None ''We sell belts.'']))"
    by (simp add: tool_call_loop_no_call)
  have s2: "send_and_read (scripted (JList [])) (start [Response [Content []]])
              (UserPrompt ''What do you sell?'' tools) = (?st2, Inr (Content []))"
    by (simp add: send_and_read_def chat_send_message_def example_eval)
  have l2: "tool_call_loop (scripted (JList [])) None ?st2 (Content []) =
            Some (?st2, Inr (Content []))"
    by (simp add: tool_call_loop_no_parts)
  note text_case = final_answer_from_first_part [OF s1 l1]
  note empty_case = final_answer_from_first_part [OF s2 l2]
  have r1: "generate_response_with_gemini (scripted (JList []))
              (start [text_reply ''We sell belts.'']) ''What do you sell?'' tools None =
            Some (?st1, Inr ''We sell belts.'')"
    using text_case by simp
  have r2: "generate_response_with_gemini (scripted (JList []))
              (start [Response [Content []]]) ''What do you sell?'' tools None =
            Some (?st2, Inr ''I have processed your request. Is there anything else I can help with?'')"
    using empty_case by simp
  from s1 r1 s2 r2 show ?thesis
    by (intro conjI)
qed

theorem text_in_later_part_counterexample:
  "generate_response_with_gemini (scripted (JList []))
     (start [Response [Content [Part None [], Part None ''We sell belts.'']]])
     ''What do you sell?'' tools None =
   Some (\<lparr>world = [],
          trace = [SendMessage (UserPrompt ''What do you sell?'' tools)
                     (Inr (Response [Content [Part None [], Part None ''We sell belts.'']]))]\<rparr>,
         Inr ''I have processed your request. Is there anything else I can help with?'')"
  by (simp add: driver_eval example_eval fallback_text_def)

text \<open>
  C4, as the code has it: every exception that leaves the body of the turn (a failed call
  of the model endpoint, a reply without candidates, an exception in a tool round that its
  handler did not absorb) is turned by the outer handler into the fixed apology.  The
  driver never hands an exception to its caller: whenever it returns, it returns text.
  It returns exactly when the body of the turn ends, which it need not do when the model
  keeps asking for tools.
\<close>

theorem exceptions_become_apology:
  "(\<forall>st1 e. turn_body env st user_prompt tls mcp_instance = Some (st1, Inl e) \<longrightarrow>
       generate_response_with_gemini env st user_prompt tls mcp_instance =
         Some (st1, Inr apology_text))
   \<and> (\<forall>st1 r. generate_response_with_gemini env st user_prompt tls mcp_instance = Some (st1, r)
         \<longrightarrow> (\<exists>answer. r = Inr answer))
   \<and> ((generate_response_with_gemini env st user_prompt tls mcp_instance = None) =
       (turn_body env st user_prompt tls mcp_instance = None))
   \<and> (\<forall>w e. send_message env (world st) (UserPrompt user_prompt tls) = (w, Inl e) \<longrightarrow>
         generate_response_with_gemini env st user_prompt tls mcp_instance =
           Some (\<lparr>world = w,
                  trace = trace st @ [SendMessage (UserPrompt user_prompt tls) (Inl e)]\<rparr>,
                 Inr apology_text))
   \<and> (\<forall>w. send_message env (world st) (UserPrompt user_prompt tls) = (w, Inr (Response [])) \<longrightarrow>
         generate_response_with_gemini env st user_prompt tls mcp_instance =
           Some (\<lparr>world = w,
                  trace = trace st @
                    [SendMessage (UserPrompt user_prompt tls) (Inr (Response []))]\<rparr>,
                 Inr apology_text))
   \<and> apology_text =
       ''I'' @ [CHR 0x27] @ ''m sorry, but I encountered an error while trying to process your request. Please try again later.''"
proof -
  have caught: "\<forall>st1 e. turn_body env st user_prompt tls mcp_instance = Some (st1, Inl e) \<longrightarrow>
       generate_response_with_gemini env st user_prompt tls mcp_instance =
         Some (st1, Inr apology_text)"
    by (simp add: generate_response_with_gemini_def)
  have text_only: "\<forall>st1 r. generate_response_with_gemini env st user_prompt tls mcp_instance =
                     Some (st1, r) \<longrightarrow> (\<exists>answer. r = Inr answer)"
    using generate_response_returns_text by blast
  have returns: "(generate_response_with_gemini env st user_prompt tls mcp_instance = None) =
       (turn_body env st user_prompt tls mcp_instance = None)"
    by (simp add: generate_response_with_gemini_def split: option.splits sum.splits)
  have unreachable: "\<forall>w e. send_message env (world st) (UserPrompt user_prompt tls) = (w, Inl e)
         \<longrightarrow> generate_response_with_gemini env st user_prompt tls mcp_instance =
           Some (\<lparr>world = w,
                  trace = trace st @ [SendMessage (UserPrompt user_prompt tls) (Inl e)]\<rparr>,
                 Inr apology_text)"
    by (simp add: generate_response_with_gemini_def turn_body_def send_and_read_def
          chat_send_message_def)
  have no_candidates: "\<forall>w. send_message env (world st) (UserPrompt user_prompt tls) =
                         (w, Inr (Response [])) \<longrightarrow>
         generate_response_with_gemini env st user_prompt tls mcp_instance =
           Some (\<lparr>world = w,
                  trace = trace st @
                    [SendMessage (UserPrompt user_prompt tls) (Inr (Response []))]\<rparr>,
                 Inr apology_text)"
    by (simp add: generate_response_with_gemini_def turn_body_def send_and_read_def
          chat_send_message_def)
  from caught text_only returns unreachable no_candidates show ?thesis
    by (simp only: apology_text_def simp_thms)
qed

theorem exceptions_become_apology_witness:
  "send_message (scripted (JList [])) (world (start [])) (UserPrompt ''Hello'' tools) =
     ([], Inl (OtherException ''no reply''))
   \<and> turn_body (scripted (JList [])) (start []) ''Hello'' tools None =
     Some (\<lparr>world = [],
            trace = [SendMessage (UserPrompt ''Hello'' tools)
                       (Inl (OtherException ''no reply''))]\<rparr>,
           Inl (OtherException ''no reply''))
   \<and> generate_response_with_gemini (scripted (JList [])) (start []) ''Hello'' tools None =
     Some (\<lparr>world = [],
            trace = [SendMessage (UserPrompt ''Hello'' tools)
                       (Inl (OtherException ''no reply''))]\<rparr>,
           Inr (''I'' @ [CHR 0x27] @ ''m sorry, but I encountered an error while trying to process your request. Please try again later.''))
   \<and> send_message (scripted (JList [])) (world (start [Response []]))
       (UserPrompt ''Hello'' tools) = ([], Inr (Response []))
   \<and> generate_response_with_gemini (scripted (JList [])) (start [Response []]) ''Hello''
       tools None =
     Some (\<lparr>world = [],
            trace = [SendMessage (UserPrompt ''Hello'' tools) (Inr (Response []))]\<rparr>,
           Inr (''I'' @ [CHR 0x27] @ ''m sorry, but I encountered an error while trying to process your request. Please try again later.''))"
proof -
  have down: "send_message (scripted (JList [])) (world (start [])) (UserPrompt ''Hello'' tools) =
                ([], Inl (OtherException ''no reply''))"
    by (simp add: example_eval)
  have body: "turn_body (scripted (JList [])) (start []) ''Hello'' tools None =
     Some (\<lparr>world = [],
            trace = [SendMessage (UserPrompt ''Hello'' tools)
                       (Inl (OtherException ''no reply''))]\<rparr>,
           Inl (OtherException ''no reply''))"
    by (simp add: turn_body_def send_and_read_def chat_send_message_def example_eval)
  have blocked: "send_message (scripted (JList [])) (world (start [Response []]))
       (UserPrompt ''Hello'' tools) = ([], Inr (Response []))"
    by (simp add: example_eval)
  have t: "trace (start []) = []" "trace (start [Response []]) = []"
    by (simp_all add: start_def)
  note a = exceptions_become_apology [of "scripted (JList [])" "start []" "''Hello''" tools None]
  note b = exceptions_become_apology [of "scripted (JList [])" "start [Response []]" "''Hello''"
             tools None]
  have r1: "generate_response_with_gemini (scripted (JList [])) (start []) ''Hello'' tools None =
     Some (\<lparr>world = [],
            trace = [SendMessage (UserPrompt ''Hello'' tools)
                       (Inl (OtherException ''no reply''))]\<rparr>,
           Inr (''I'' @ [CHR 0x27] @ ''m sorry, but I encountered an error while trying to process your request. Please try again later.''))"
    using a down t by simp
  have r2: "generate_response_with_gemini (scripted (JList [])) (start [Response []]) ''Hello''
       tools None =
     Some (\<lparr>world = [],
            trace = [SendMessage (UserPrompt ''Hello'' tools) (Inr (Response []))]\<rparr>,
           Inr (''I'' @ [CHR 0x27] @ ''m sorry, but I encountered an error while trying to process your request. Please try again later.''))"
    using b blocked t by simp
  from down body r1 blocked r2 show ?thesis
    by (intro conjI)
qed

theorem driver_never_returns_counterexample:
  "generate_response_with_gemini insistent \<lparr>world = (), trace = []\<rparr>
     ''List the products'' tools None = None"
  by (rule generate_response_never_returns [OF keeps_requesting_tools_insistent])


section \<open>The entry point\<close>

text \<open>
  C5, as the code has it: a request with the empty prompt is refused with
  \<open>HTTPException(400)\<close> before the driver runs: the world and the trace are as before, so
  no call of the model and no tool call was made.  For a prompt that is not empty the entry
  point runs the driver with the declared tools and no FastMCP instance; when the driver
  returns its text, the entry point returns \<open>{response: <text>}\<close>, and it never fails.  It
  returns exactly when the driver does, so not when the model keeps asking for tools.
\<close>

theorem empty_prompt_is_refused:
  "(prompt request = [] \<longrightarrow>
      chat_with_agent env st request =
        Some (st, Inl (HTTPException 400 ''Prompt cannot be empty.'')))
   \<and> (prompt request \<noteq> [] \<longrightarrow>
        (\<forall>st1 answer.
            generate_response_with_gemini env st (prompt request) tools None =
              Some (st1, Inr answer) \<longrightarrow>
            chat_with_agent env st request =
              Some (st1, Inr (JObj [(''response'', JStr answer)])))
        \<and> ((chat_with_agent env st request = None) =
           (generate_response_with_gemini env st (prompt request) tools None = None))
        \<and> (\<forall>st1 failure. chat_with_agent env st request \<noteq> Some (st1, Inl failure)))"
proof -
  have refused: "prompt request = [] \<longrightarrow>
      chat_with_agent env st request =
        Some (st, Inl (HTTPException 400 ''Prompt cannot be empty.''))"
    by (simp add: chat_with_agent_def)
  have answered: "prompt request \<noteq> [] \<longrightarrow>
        (\<forall>st1 answer.
            generate_response_with_gemini env st (prompt request) tools None =
              Some (st1, Inr answer) \<longrightarrow>
            chat_with_agent env st request =
              Some (st1, Inr (JObj [(''response'', JStr answer)])))"
    by (simp add: chat_with_agent_def)
  have returns: "prompt request \<noteq> [] \<longrightarrow>
        ((chat_with_agent env st request = None) =
           (generate_response_with_gemini env st (prompt request) tools None = None))"
    by (simp add: chat_with_agent_def split: option.splits sum.splits)
  have never_fails: "prompt request \<noteq> [] \<longrightarrow>
        (\<forall>st1 failure. chat_with_agent env st request \<noteq> Some (st1, Inl failure))"
    using generate_response_returns_text [of env st "prompt request" tools None]
    by (auto simp: chat_with_agent_def split: option.splits sum.splits)
  from refused answered returns never_fails show ?thesis
    by blast
qed

theorem empty_prompt_is_refused_witness:
  "prompt \<lparr>prompt = [], history = Some []\<rparr> = []
   \<and> chat_with_agent (scripted (JList [])) (start [text_reply ''Hello!''])
       \<lparr>prompt = [], history = Some []\<rparr> =
     Some (start [text_reply ''Hello!''], Inl (HTTPException 400 ''Prompt cannot be empty.''))
   \<and> prompt \<lparr>prompt = ''Hi'', history = Some []\<rparr> \<noteq> []
   \<and> generate_response_with_gemini (scripted (JList [])) (start [text_reply ''Hello!''])
       ''Hi'' tools None =
     Some (\<lparr>world = [],
            trace = [SendMessage (UserPrompt ''Hi'' tools) (Inr (text_reply ''Hello!''))]\<rparr>,
           Inr ''Hello!'')
   \<and> chat_with_agent (scripted (JList [])) (start [text_reply ''Hello!''])
       \<lparr>prompt = ''Hi'', history = Some []\<rparr> =
     Some (\<lparr>world = [],
            trace = [SendMessage (UserPrompt ''Hi'' tools) (Inr (text_reply ''Hello!''))]\<rparr>,
           Inr (JObj [(''response'', JStr ''Hello!'')]))"
proof -
  have driver: "generate_response_with_gemini (scripted (JList [])) (start [text_reply ''Hello!''])
       ''Hi'' tools None =
     Some (\<lparr>world = [],
            trace = [SendMessage (UserPrompt ''Hi'' tools) (Inr (text_reply ''Hello!''))]\<rparr>,
           Inr ''Hello!'')"
    by (simp add: driver_eval example_eval)
  note empty = empty_prompt_is_refused [of "\<lparr>prompt = [], history = Some []\<rparr>"
                 "scripted (JList [])" "start [text_reply ''Hello!'']"]
  note full = empty_prompt_is_refused [of "\<lparr>prompt = ''Hi'', history = Some []\<rparr>"
                 "scripted (JList [])" "start [text_reply ''Hello!'']"]
  have refused: "chat_with_agent (scripted (JList [])) (start [text_reply ''Hello!''])
       \<lparr>prompt = [], history = Some []\<rparr> =
     Some (start [text_reply ''Hello!''], Inl (HTTPException 400 ''Prompt cannot be empty.''))"
    using empty by simp
  have answered: "chat_with_agent (scripted (JList [])) (start [text_reply ''Hello!''])
       \<lparr>prompt = ''Hi'', history = Some []\<rparr> =
     Some (\<lparr>world = [],
            trace = [SendMessage (UserPrompt ''Hi'' tools) (Inr (text_reply ''Hello!''))]\<rparr>,
           Inr (JObj [(''response'', JStr ''Hello!'')]))"
    using full driver by simp
  from refused driver answered show ?thesis
    by simp
qed

theorem entry_point_never_returns_counterexample:
  "chat_with_agent insistent \<lparr>world = (), trace = []\<rparr>
     \<lparr>prompt = ''List the products'', history = Some []\<rparr> = None"
  by (simp add: chat_with_agent_def
        generate_response_never_returns [OF keeps_requesting_tools_insistent])

section \<open>The two executors\<close>

lemma outcome_send_and_read:
  "world st = world st' \<Longrightarrow>
   outcome (send_and_read env st msg) = outcome (send_and_read env st' msg)"
  by (simp add: outcome_def send_and_read_def chat_send_message_def
           split: prod.splits sum.splits list.splits)

lemma outcome_eq:
  "outcome (st, r) = outcome (st', r') \<longleftrightarrow> world st = world st' \<and> r = r'"
  by (simp add: outcome_def)

text \<open>
  Two choices of executor that leave the same world and give the same value or exception
  for every call made from the same world.
\<close>

lemma tool_round_same_outcome:
  assumes same: "\<And>st st' tool_name tool_args. world st = world st' \<Longrightarrow>
             outcome (execute_tool env mcp1 st tool_name tool_args) =
             outcome (execute_tool env mcp2 st' tool_name tool_args)"
    and w: "world st = world st'"
  shows "outcome (tool_round env mcp1 st function_call) =
         outcome (tool_round env mcp2 st' function_call)"
proof -
  obtain s1 r1 where e1: "execute_tool env mcp1 st (fc_name function_call)
                            (fc_args function_call) = (s1, r1)"
    by (cases "execute_tool env mcp1 st (fc_name function_call) (fc_args function_call)")
  obtain s2 r2 where e2: "execute_tool env mcp2 st' (fc_name function_call)
                            (fc_args function_call) = (s2, r2)"
    by (cases "execute_tool env mcp2 st' (fc_name function_call) (fc_args function_call)")
  from same [OF w, of "fc_name function_call" "fc_args function_call"] e1 e2
  have ws: "world s1 = world s2" and rs: "r1 = r2"
    by (simp_all add: outcome_eq)
  from e2 rs have e2: "execute_tool env mcp2 st' (fc_name function_call)
                         (fc_args function_call) = (s2, r1)"
    by simp
  show ?thesis
  proof (cases r1)
    case (Inl e)
    have "tool_round env mcp1 st function_call =
            send_and_read env s1 (error_response (fc_name function_call) e)"
      using e1 Inl by (simp add: tool_round_failure)
    moreover have "tool_round env mcp2 st' function_call =
            send_and_read env s2 (error_response (fc_name function_call) e)"
      using e2 Inl by (simp add: tool_round_failure)
    ultimately show ?thesis
      using outcome_send_and_read [OF ws] by simp
  next
    case (Inr tool_response_data)
    show ?thesis
    proof (cases "is_object (wrap_list tool_response_data)")
    case False
    have "tool_round env mcp1 st function_call =
            send_and_read env s1 (error_response (fc_name function_call)
              (refuse env (wrap_list tool_response_data)))"
      using e1 Inr False by (simp add: tool_round_refused)
    moreover have "tool_round env mcp2 st' function_call =
            send_and_read env s2 (error_response (fc_name function_call)
              (refuse env (wrap_list tool_response_data)))"
      using e2 Inr False by (simp add: tool_round_refused)
    ultimately show ?thesis
      using outcome_send_and_read [OF ws] by simp
    next
    case True
    let ?msg = "FunctionResponse (fc_name function_call) (wrap_list tool_response_data)"
    have t1: "tool_round env mcp1 st function_call =
            (case send_and_read env s1 ?msg of
               (st2, Inr response_message) \<Rightarrow> (st2, Inr response_message)
             | (st2, Inl e) \<Rightarrow> send_and_read env st2 (error_response (fc_name function_call) e))"
      using e1 Inr True by (simp add: tool_round_success)
    have t2: "tool_round env mcp2 st' function_call =
            (case send_and_read env s2 ?msg of
               (st2, Inr response_message) \<Rightarrow> (st2, Inr response_message)
             | (st2, Inl e) \<Rightarrow> send_and_read env st2 (error_response (fc_name function_call) e))"
      using e2 Inr True by (simp add: tool_round_success)
    obtain a1 b1 where s1: "send_and_read env s1 ?msg = (a1, b1)"
      by (cases "send_and_read env s1 ?msg")
    obtain a2 b2 where s2: "send_and_read env s2 ?msg = (a2, b2)"
      by (cases "send_and_read env s2 ?msg")
    from outcome_send_and_read [OF ws, of env ?msg] s1 s2
    have wa: "world a1 = world a2" and bs: "b1 = b2"
      by (simp_all add: outcome_eq)
    from s2 bs have s2: "send_and_read env s2 ?msg = (a2, b1)"
      by simp
    show ?thesis
    proof (cases b1)
      case (Inl e)
      have "tool_round env mcp1 st function_call =
              send_and_read env a1 (error_response (fc_name function_call) e)"
        using t1 s1 Inl by simp
      moreover have "tool_round env mcp2 st' function_call =
              send_and_read env a2 (error_response (fc_name function_call) e)"
        using t2 s2 Inl by simp
      ultimately show ?thesis
        using outcome_send_and_read [OF wa] by simp
    next
      case (Inr response_message)
      have "tool_round env mcp1 st function_call = (a1, Inr response_message)"
        using t1 s1 Inr by simp
      moreover have "tool_round env mcp2 st' function_call = (a2, Inr response_message)"
        using t2 s2 Inr by simp
      ultimately show ?thesis
        using wa by (simp add: outcome_eq)
    qed
    qed
  qed
qed

lemma tool_call_loop_same_outcome_aux:
  fixes env :: "'w env"
  assumes "tool_call_loop env mcp1 st response_message = Some y"
  shows "(\<forall>st st' tool_name tool_args. world st = world st' \<longrightarrow>
             outcome (execute_tool env mcp1 st tool_name tool_args) =
             outcome (execute_tool env mcp2 st' tool_name tool_args)) \<longrightarrow>
         (\<forall>st'. world st = world st' \<longrightarrow>
            (\<exists>y'. tool_call_loop env mcp2 st' response_message = Some y' \<and>
                  outcome y' = outcome y))"
  using assms
proof (induct rule: tool_call_loop.raw_induct [rotated 1, consumes 1, case_names round])
  case (round loop env mcp1 st response_message y)
  show ?case
  proof (intro impI allI)
    fix st' :: "'w state"
    assume same: "\<forall>st st' tool_name tool_args. world st = world st' \<longrightarrow>
             outcome (execute_tool env mcp1 st tool_name tool_args) =
             outcome (execute_tool env mcp2 st' tool_name tool_args)"
      and w: "world st = world st'"
    show "\<exists>y'. tool_call_loop env mcp2 st' response_message = Some y' \<and> outcome y' = outcome y"
    proof (cases "requested_call response_message")
      case None
      with round.hyps(2) w show ?thesis
        by (auto simp: tool_call_loop_exit outcome_def)
    next
      case (Some function_call)
      obtain s1 r1 where t1: "tool_round env mcp1 st function_call = (s1, r1)"
        by (cases "tool_round env mcp1 st function_call")
      obtain s2 r2 where t2: "tool_round env mcp2 st' function_call = (s2, r2)"
        by (cases "tool_round env mcp2 st' function_call")
      from tool_round_same_outcome [of env mcp1 mcp2 st st' function_call] same w t1 t2
      have ws: "world s1 = world s2" and rs: "r1 = r2"
        by (simp_all add: outcome_eq)
      from t2 rs have t2: "tool_round env mcp2 st' function_call = (s2, r1)"
        by simp
      show ?thesis
      proof (cases r1)
        case (Inl e)
        with round.hyps(2) Some t1 t2 ws show ?thesis
          by (auto simp: tool_call_loop_round outcome_def)
      next
        case (Inr response_message1)
        with round.hyps(2) Some t1 have "loop env mcp1 s1 response_message1 = Some y"
          by simp
        from round.hyps(1) [OF this] same ws
        obtain y' where "tool_call_loop env mcp2 s2 response_message1 = Some y'"
          and "outcome y' = outcome y"
          by blast
        with Some t2 Inr show ?thesis
          by (simp add: tool_call_loop_round)
      qed
    qed
  qed
qed


lemma tool_call_loop_same_outcome:
  fixes env :: "'w env" and st st' :: "'w state"
  assumes same: "\<forall>s s' tool_name tool_args. world s = world s' \<longrightarrow>
             outcome (execute_tool env mcp1 s tool_name tool_args) =
             outcome (execute_tool env mcp2 s' tool_name tool_args)"
    and w: "world st = world st'"
  shows "map_option outcome (tool_call_loop env mcp1 st response_message) =
         map_option outcome (tool_call_loop env mcp2 st' response_message)"
proof -
  have same': "\<forall>s s' tool_name tool_args. world s = world s' \<longrightarrow>
             outcome (execute_tool env mcp2 s tool_name tool_args) =
             outcome (execute_tool env mcp1 s' tool_name tool_args)"
    using same by (metis (no_types))
  show ?thesis
  proof (cases "tool_call_loop env mcp1 st response_message")
    case None
    show ?thesis
    proof (cases "tool_call_loop env mcp2 st' response_message")
      case (Some y')
      from tool_call_loop_same_outcome_aux [OF Some, of mcp1] same' w [symmetric] None
      show ?thesis
        by auto
    next
      case None
      with \<open>tool_call_loop env mcp1 st response_message = None\<close> show ?thesis by simp
    qed
  next
    case (Some y)
    from tool_call_loop_same_outcome_aux [OF Some, of mcp2] same w Some show ?thesis
      by auto
  qed
qed

lemma generate_response_same_outcome:
  fixes env :: "'w env"
  assumes same: "\<forall>s s' tool_name tool_args. world s = world s' \<longrightarrow>
             outcome (execute_tool env mcp1 s tool_name tool_args) =
             outcome (execute_tool env mcp2 s' tool_name tool_args)"
  shows "map_option outcome (generate_response_with_gemini env st user_prompt tls mcp1) =
         map_option outcome (generate_response_with_gemini env st user_prompt tls mcp2)"
proof -
  obtain st0 r0 where first: "send_and_read env st (UserPrompt user_prompt tls) = (st0, r0)"
    by (cases "send_and_read env st (UserPrompt user_prompt tls)")
  show ?thesis
  proof (cases r0)
    case (Inl e)
    with first show ?thesis
      by (simp add: generate_response_with_gemini_def turn_body_def)
  next
    case (Inr response_message)
    from tool_call_loop_same_outcome [OF same, of st0 st0 response_message]
    have loops: "map_option outcome (tool_call_loop env mcp1 st0 response_message) =
                 map_option outcome (tool_call_loop env mcp2 st0 response_message)"
      by simp
    show ?thesis
    proof (cases "tool_call_loop env mcp1 st0 response_message")
      case None
      with loops have "tool_call_loop env mcp2 st0 response_message = None"
        by simp
      with None first Inr show ?thesis
        by (simp add: generate_response_with_gemini_def turn_body_def)
    next
      case (Some y)
      with loops obtain y' where other: "tool_call_loop env mcp2 st0 response_message = Some y'"
        and out: "outcome y' = outcome y"
        by (cases "tool_call_loop env mcp2 st0 response_message") auto
      obtain a b where y: "y = (a, b)" by (cases y)
      obtain a' b' where y': "y' = (a', b')" by (cases y')
      from out y y' have wa: "world a' = world a" and bb: "b' = b"
        by (simp_all add: outcome_eq)
      from Some other first Inr y y' wa bb show ?thesis
        by (cases b) (simp_all add: generate_response_with_gemini_def turn_body_def outcome_def)
    qed
  qed
qed

lemma outcome_execute_local_tool:
  "world st = world st' \<Longrightarrow>
   outcome (execute_local_tool env st tool_name tool_args) =
   outcome (execute_local_tool env st' tool_name tool_args)"
  by (auto simp: outcome_def execute_local_tool_def http_client_get_def
           split: sum.splits prod.splits option.splits)

lemma execute_tool_local_trace:
  "\<exists>evs. trace (fst (execute_tool env None st tool_name tool_args)) = trace st @ evs
         \<and> length evs \<le> 1 \<and> filter is_http_get evs = evs"
  by (auto simp: execute_tool_def execute_local_tool_def http_client_get_def
           split: sum.splits prod.splits option.splits)

text \<open>
  C7, as the code has it: with no FastMCP instance (what \<open>chat_with_agent\<close> passes) every
  invocation is executed by the remote proxy alone, with at most one request, and its
  failure is the executor's failure.  With a FastMCP instance the direct dispatch is tried
  first; when it succeeds nothing else runs, and when it raises the invocation is executed
  again by the remote proxy, whose result or failure is the executor's.  The driver treats
  the executor's outcome in the same way whichever is active: two choices of executor that
  give the same outcome for every call give the same answer.
\<close>

theorem executor_strategies:
  fixes env :: "'w env"
  shows "execute_tool env None st tool_name tool_args =
           execute_local_tool env st tool_name tool_args
       \<and> (\<exists>evs. trace (fst (execute_tool env None st tool_name tool_args)) = trace st @ evs
               \<and> length evs \<le> 1 \<and> filter is_http_get evs = evs)
       \<and> (\<forall>st1 result. mcp_try m st tool_name tool_args = (st1, Inr result) \<longrightarrow>
             execute_tool env (Some m) st tool_name tool_args = (st1, Inr result))
       \<and> (\<forall>st1 e. mcp_try m st tool_name tool_args = (st1, Inl e) \<longrightarrow>
             execute_tool env (Some m) st tool_name tool_args =
               execute_local_tool env st1 tool_name tool_args)
       \<and> ((\<forall>s s' called_name called_args. world s = world s' \<longrightarrow>
              outcome (execute_tool env mcp1 s called_name called_args) =
              outcome (execute_tool env mcp2 s' called_name called_args)) \<longrightarrow>
           map_option outcome (generate_response_with_gemini env st user_prompt tls mcp1) =
           map_option outcome (generate_response_with_gemini env st user_prompt tls mcp2))"
proof -
  have remote: "execute_tool env None st tool_name tool_args =
                  execute_local_tool env st tool_name tool_args"
    by (simp add: execute_tool_def)
  have direct: "\<forall>st1 result. mcp_try m st tool_name tool_args = (st1, Inr result) \<longrightarrow>
             execute_tool env (Some m) st tool_name tool_args = (st1, Inr result)"
    by (simp add: execute_tool_def execute_mcp_tool_def)
  have again: "\<forall>st1 e. mcp_try m st tool_name tool_args = (st1, Inl e) \<longrightarrow>
             execute_tool env (Some m) st tool_name tool_args =
               execute_local_tool env st1 tool_name tool_args"
    by (simp add: execute_tool_def execute_mcp_tool_def)
  have agnostic: "(\<forall>s s' called_name called_args. world s = world s' \<longrightarrow>
              outcome (execute_tool env mcp1 s called_name called_args) =
              outcome (execute_tool env mcp2 s' called_name called_args)) \<longrightarrow>
           map_option outcome (generate_response_with_gemini env st user_prompt tls mcp1) =
           map_option outcome (generate_response_with_gemini env st user_prompt tls mcp2)"
    using generate_response_same_outcome [of env mcp1 mcp2 st user_prompt tls] by blast
  from remote execute_tool_local_trace [of env st tool_name tool_args] direct again agnostic
  show ?thesis
    by (intro conjI)
qed


lemma shop_mcp_same_outcome:
  "world s = world s' \<Longrightarrow>
   outcome (execute_tool (scripted body) (Some (shop_mcp body)) s called_name called_args) =
   outcome (execute_tool (scripted body) None s' called_name called_args)"
  by (simp add: outcome_def execute_tool_def execute_mcp_tool_def mcp_try_def mcp_get_tool_def
        mcp_call_fn_def shop_mcp_def execute_local_tool_def local_request_def
        http_client_get_def scripted_def ok_response_def)

theorem executor_strategies_witness:
  "mcp_try empty_mcp (start []) ''get_products_tool'' [] =
     (\<lparr>world = [],
       trace = [McpGetTool ''get_products_tool''
                  (Some (OtherException ''Unknown tool: get_products_tool''))]\<rparr>,
      Inl (OtherException ''Unknown tool: get_products_tool''))
   \<and> execute_tool (scripted (JList [])) (Some empty_mcp) (start []) ''get_products_tool'' [] =
     execute_local_tool (scripted (JList []))
       \<lparr>world = [],
        trace = [McpGetTool ''get_products_tool''
                   (Some (OtherException ''Unknown tool: get_products_tool''))]\<rparr>
       ''get_products_tool'' []
   \<and> mcp_try (shop_mcp (JList [])) (start []) ''get_products_tool'' [] =
     (\<lparr>world = [],
       trace = [McpGetTool ''get_products_tool'' None,
                McpCallFn ''get_products_tool'' [] (Inr (JList []))]\<rparr>,
      Inr (JList []))
   \<and> execute_tool (scripted (JList [])) (Some (shop_mcp (JList []))) (start [])
       ''get_products_tool'' [] =
     (\<lparr>world = [],
       trace = [McpGetTool ''get_products_tool'' None,
                McpCallFn ''get_products_tool'' [] (Inr (JList []))]\<rparr>,
      Inr (JList []))
   \<and> map_option outcome
       (generate_response_with_gemini (scripted (JList [])) (start (products_script 1))
          ''List the products'' tools (Some (shop_mcp (JList [])))) =
     map_option outcome
       (generate_response_with_gemini (scripted (JList [])) (start (products_script 1))
          ''List the products'' tools None)
   \<and> map_option outcome
       (generate_response_with_gemini (scripted (JList [])) (start (products_script 1))
          ''List the products'' tools None) = Some ([], Inr ''Done.'')"
proof -
  have failed: "mcp_try empty_mcp (start []) ''get_products_tool'' [] =
     (\<lparr>world = [] :: response list,
       trace = [McpGetTool ''get_products_tool''
                  (Some (OtherException ''Unknown tool: get_products_tool''))]\<rparr>,
      Inl (OtherException ''Unknown tool: get_products_tool''))"
    by (simp add: mcp_try_def mcp_get_tool_def empty_mcp_def start_def)
  have worked: "mcp_try (shop_mcp (JList [])) (start []) ''get_products_tool'' [] =
     (\<lparr>world = [] :: response list,
       trace = [McpGetTool ''get_products_tool'' None,
                McpCallFn ''get_products_tool'' [] (Inr (JList []))]\<rparr>,
      Inr (JList []))"
    by (simp add: mcp_try_def mcp_get_tool_def mcp_call_fn_def shop_mcp_def start_def)
  have same: "\<forall>s s' called_name called_args. world s = world s' \<longrightarrow>
      outcome (execute_tool (scripted (JList [])) (Some (shop_mcp (JList []))) s
                 called_name called_args) =
      outcome (execute_tool (scripted (JList [])) None s' called_name called_args)"
    using shop_mcp_same_outcome by blast
  note fallback = executor_strategies [of "scripted (JList [])" "start []" "''get_products_tool''"
      "[]" empty_mcp]
  note direct = executor_strategies [of "scripted (JList [])" "start []" "''get_products_tool''"
      "[]" "shop_mcp (JList [])"]
  note agnostic = executor_strategies [of "scripted (JList [])" "start (products_script 1)" _ _ _
      "Some (shop_mcp (JList []))" None "''List the products''" tools]
  have again: "execute_tool (scripted (JList [])) (Some empty_mcp) (start [])
                 ''get_products_tool'' [] =
     execute_local_tool (scripted (JList []))
       \<lparr>world = [],
        trace = [McpGetTool ''get_products_tool''
                   (Some (OtherException ''Unknown tool: get_products_tool''))]\<rparr>
       ''get_products_tool'' []"
    using fallback failed by simp
  have once: "execute_tool (scripted (JList [])) (Some (shop_mcp (JList []))) (start [])
       ''get_products_tool'' [] =
     (\<lparr>world = [],
       trace = [McpGetTool ''get_products_tool'' None,
                McpCallFn ''get_products_tool'' [] (Inr (JList []))]\<rparr>,
      Inr (JList []))"
    using direct worked by simp
  have equal: "map_option outcome
       (generate_response_with_gemini (scripted (JList [])) (start (products_script 1))
          ''List the products'' tools (Some (shop_mcp (JList [])))) =
     map_option outcome
       (generate_response_with_gemini (scripted (JList [])) (start (products_script 1))
          ''List the products'' tools None)"
    using agnostic same by blast
  have answer: "map_option outcome
       (generate_response_with_gemini (scripted (JList [])) (start (products_script 1))
          ''List the products'' tools None) = Some ([], Inr ''Done.'')"
    by (simp add: driver_eval example_eval products_script_def outcome_def)
  from failed again worked once equal answer show ?thesis
    by (intro conjI)
qed

theorem mcp_failure_runs_remote_proxy_counterexample:
  "execute_tool (scripted (JList [])) (Some empty_mcp) (start []) ''get_products_tool'' [] =
   (\<lparr>world = [],
     trace = [McpGetTool ''get_products_tool''
                (Some (OtherException ''Unknown tool: get_products_tool'')),
              HttpGet ''http://localhost:8001/products'' None (Inr (ok_response (JList [])))]\<rparr>,
    Inr (JList []))"
  by (simp add: execute_tool_def execute_mcp_tool_def mcp_try_def mcp_get_tool_def empty_mcp_def
        execute_local_tool_def local_request_def http_client_get_def base_url_def example_eval)

section \<open>Tool responses per tool call\<close>

text \<open>
  C8 at an input where the code departs from it: the model asks for the product list, the
  tool succeeds, and the model's reply to the tool response has no candidates.  Reading that
  reply raises inside the inner \<open>try\<close>, so the handler meant for a failed tool sends a
  second tool response for the same call, which says that the tool failed.
\<close>

theorem two_tool_responses_for_one_call:
  "generate_response_with_gemini (scripted (JList []))
     (start [tool_request ''get_products_tool'' [], Response [],
             text_reply ''The product list is unavailable.''])
     ''List the products'' tools None =
   Some (\<lparr>world = [],
          trace = [SendMessage (UserPrompt ''List the products'' tools)
                     (Inr (tool_request ''get_products_tool'' [])),
                   HttpGet ''http://localhost:8001/products'' None
                     (Inr (ok_response (JList []))),
                   SendMessage (FunctionResponse ''get_products_tool''
                                  (JObj [(''results'', JList [])]))
                     (Inr (Response [])),
                   SendMessage (FunctionResponse ''get_products_tool''
                                  (JObj [(''error'',
                                          JStr ''Failed to execute tool: list index out of range'')]))
                     (Inr (text_reply ''The product list is unavailable.''))]\<rparr>,
         Inr ''The product list is unavailable.'')
   \<and> map_option (\<lambda>x. (length (filter is_http_get (trace (fst x))),
                       length (filter is_tool_response (trace (fst x)))))
       (generate_response_with_gemini (scripted (JList []))
          (start [tool_request ''get_products_tool'' [], Response [],
                  text_reply ''The product list is unavailable.''])
          ''List the products'' tools None) = Some (1, 2)"
  by (simp add: driver_eval example_eval)

end
